theory Spec2Isabelle
  imports Main "HOL-Library.Word" "HOL-Library.Monad_Syntax"
begin

section \<open>The LZFSE JNI bridge of hadoop-common\<close>

text \<open>
  The two C files \<^verbatim>\<open>LzfseCompressor.c\<close> and \<^verbatim>\<open>LzfseDecompressor.c\<close> are the native half
  of two Java classes. Each file keeps four statics (one function pointer, three field
  identifiers), fills them in \<^verbatim>\<open>initIDs\<close> and reads them in its \<^verbatim>\<open>...BytesDirect\<close> function.
  The embedding below passes the statics, the pending Java exception, the byte memory
  and a log of the calls that leave the bridge explicitly, as one record.
\<close>

subsection \<open>Machine types\<close>

text \<open>
  \<^verbatim>\<open>jint\<close> and \<^verbatim>\<open>jsize\<close> are the 32-bit signed integers of JNI (read with \<open>sint\<close>);
  \<^verbatim>\<open>size_t\<close> and pointers are 64-bit unsigned (LP64, the platforms the native library is
  built for). \<^verbatim>\<open>NULL\<close> is the pointer \<open>0\<close>. The cast \<^verbatim>\<open>(size_t) x\<close> of a \<^verbatim>\<open>jint\<close> extends the
  sign (\<open>scast\<close>); the cast \<^verbatim>\<open>(jsize) r\<close> of a \<^verbatim>\<open>size_t\<close> keeps the low 32 bits (\<open>ucast\<close>).
\<close>

type_synonym byte = "8 word"
type_synonym jint = "32 word"
type_synonym jsize = "32 word"
type_synonym size_t = "64 word"
type_synonym ptr = "64 word"
type_synonym memory = "ptr \<Rightarrow> byte"

subsection \<open>Java values seen through JNI\<close>

text \<open>
  A \<^verbatim>\<open>java.nio.Buffer\<close> is either direct, with the address of its memory block, its
  capacity and its limit (the logical length), or not direct. \<^verbatim>\<open>GetDirectBufferAddress\<close>
  gives the address of a direct buffer and \<^verbatim>\<open>NULL\<close> otherwise.
\<close>

datatype jbuffer = DirectBuffer ptr jint jint | HeapBuffer

fun GetDirectBufferAddress :: "jbuffer \<Rightarrow> ptr" where
  "GetDirectBufferAddress (DirectBuffer a cap lim) = a"
| "GetDirectBufferAddress HeapBuffer = 0"

datatype jvalue = JBuffer jbuffer | JInt jint

text \<open>
  An object maps the names of its fields to their values. A class is the list of the
  (name, signature) pairs it declares. A \<^verbatim>\<open>jfieldID\<close> is \<^verbatim>\<open>NULL\<close> (\<open>None\<close>) or names a field.
\<close>

type_synonym jobject = "string \<rightharpoonup> jvalue"
type_synonym jclass = "(string \<times> string) list"
type_synonym jfieldID = "string option"

text \<open>
  A pending exception. \<open>Thrown c m\<close> is what \<^verbatim>\<open>THROW(env, c, m)\<close> leaves pending;
  \<open>SymbolResolutionError\<close> is what \<^verbatim>\<open>LOAD_DYNAMIC_SYMBOL\<close> leaves pending.
\<close>

datatype jthrowable = Thrown string string | SymbolResolutionError

text \<open>The two failures the C files throw themselves, under the names of the specification.\<close>

definition LibraryLoadError :: "string \<Rightarrow> jthrowable" where
  "LibraryLoadError msg = Thrown ''java/lang/UnsatisfiedLinkError'' msg"

definition CodecFailure :: "string \<Rightarrow> jthrowable" where
  "CodecFailure msg = Thrown ''java/lang/InternalError'' msg"

subsection \<open>The dynamic loader and the codec library\<close>

text \<open>
  The entry points of liblzfse have the C type
  \<^verbatim>\<open>size_t (*)(uint8_t *, size_t, const uint8_t *, size_t, void *)\<close>. A foreign function
  reads and writes the byte memory and returns a \<^verbatim>\<open>size_t\<close>.
\<close>

type_synonym lzfse_fn =
  "memory \<Rightarrow> ptr \<Rightarrow> size_t \<Rightarrow> ptr \<Rightarrow> size_t \<Rightarrow> ptr \<Rightarrow> memory \<times> size_t"

text \<open>
  Everything the bridge takes from outside the two files is a field of \<open>dl_world\<close>:
  the macro \<^verbatim>\<open>HADOOP_LZFSE_LIBRARY\<close> (set by the build), the answers of \<^verbatim>\<open>dlopen\<close>
  (a handle, or \<^verbatim>\<open>NULL\<close>), \<^verbatim>\<open>dlerror\<close> (the diagnostic of the failed \<^verbatim>\<open>dlopen\<close>), \<^verbatim>\<open>dlsym\<close>
  (an address, or \<^verbatim>\<open>NULL\<close>), \<^verbatim>\<open>dladdr\<close> (\<^verbatim>\<open>dli_fname\<close> when the address is matched to a
  shared object) and the function that sits at an address (\<open>None\<close>: no function there,
  calling it crashes the process).
\<close>

record dl_world =
  HADOOP_LZFSE_LIBRARY :: string
  dlopen :: "string \<Rightarrow> ptr"
  dlerror :: string
  dlsym :: "ptr \<Rightarrow> string \<Rightarrow> ptr"
  dladdr :: "ptr \<Rightarrow> string option"
  fn_at :: "ptr \<Rightarrow> lzfse_fn option"

text \<open>The calls that leave the bridge, in the order they are made.\<close>

datatype event =
    Dlopen string
  | Dlerror
  | Dlsym ptr string
  | Dladdr ptr
  | Call ptr ptr size_t ptr size_t ptr

subsection \<open>The state of the process\<close>

record process =
  LzfseCompressor_uncompressedBuffer :: jfieldID
  LzfseCompressor_compressedBuffer :: jfieldID
  LzfseCompressor_internalBufferSize :: jfieldID
  dlsym_lzfse_encode_buffer :: ptr
  LzfseDecompressor_compressedBuffer :: jfieldID
  LzfseDecompressor_decompressedBuffer :: jfieldID
  LzfseDecompressor_internalBufferSize :: jfieldID
  dlsym_lzfse_decode_buffer :: ptr
  pending :: "jthrowable option"
  mem :: memory
  events :: "event list"

text \<open>C statics start as \<^verbatim>\<open>NULL\<close>.\<close>

definition fresh_process :: "memory \<Rightarrow> process" where
  "fresh_process m =
     \<lparr> LzfseCompressor_uncompressedBuffer = None,
       LzfseCompressor_compressedBuffer = None,
       LzfseCompressor_internalBufferSize = None,
       dlsym_lzfse_encode_buffer = 0,
       LzfseDecompressor_compressedBuffer = None,
       LzfseDecompressor_decompressedBuffer = None,
       LzfseDecompressor_internalBufferSize = None,
       dlsym_lzfse_decode_buffer = 0,
       pending = None,
       mem = m,
       events = [] \<rparr>"

text \<open>The cached state of each file: its function pointer and its three field identifiers.\<close>

definition compressor_statics :: "process \<Rightarrow> ptr \<times> jfieldID \<times> jfieldID \<times> jfieldID" where
  "compressor_statics s =
     (dlsym_lzfse_encode_buffer s, LzfseCompressor_uncompressedBuffer s,
      LzfseCompressor_compressedBuffer s, LzfseCompressor_internalBufferSize s)"

definition decompressor_statics :: "process \<Rightarrow> ptr \<times> jfieldID \<times> jfieldID \<times> jfieldID" where
  "decompressor_statics s =
     (dlsym_lzfse_decode_buffer s, LzfseDecompressor_compressedBuffer s,
      LzfseDecompressor_decompressedBuffer s, LzfseDecompressor_internalBufferSize s)"

definition emit :: "event list \<Rightarrow> process \<Rightarrow> process" where
  "emit es s = s\<lparr>events := events s @ es\<rparr>"

subsection \<open>JNI functions and the macros of the Hadoop headers\<close>

text \<open>
  \<^verbatim>\<open>GetFieldID\<close> gives the identifier of a declared field; for a field the class does
  not declare it gives \<^verbatim>\<open>NULL\<close> and leaves a \<^verbatim>\<open>NoSuchFieldError\<close> pending.
  \<^verbatim>\<open>GetObjectField\<close> and \<^verbatim>\<open>GetIntField\<close> read a field; with a \<^verbatim>\<open>NULL\<close> identifier, or one
  that does not fit the object, the behaviour is undefined (\<open>None\<close>: the process crashes).
\<close>

definition GetFieldID :: "jclass \<Rightarrow> string \<Rightarrow> string \<Rightarrow> process \<Rightarrow> jfieldID \<times> process" where
  "GetFieldID clazz name sig s =
     (if (name, sig) \<in> set clazz then (Some name, s)
      else (None, s\<lparr>pending := Some (Thrown ''java/lang/NoSuchFieldError'' name)\<rparr>))"

definition GetObjectField :: "jobject \<Rightarrow> jfieldID \<Rightarrow> jbuffer option" where
  "GetObjectField obj fieldID =
     (case fieldID of
        None \<Rightarrow> None
      | Some name \<Rightarrow> (case obj name of Some (JBuffer b) \<Rightarrow> Some b | _ \<Rightarrow> None))"

definition GetIntField :: "jobject \<Rightarrow> jfieldID \<Rightarrow> jint option" where
  "GetIntField obj fieldID =
     (case fieldID of
        None \<Rightarrow> None
      | Some name \<Rightarrow> (case obj name of Some (JInt i) \<Rightarrow> Some i | _ \<Rightarrow> None))"

text \<open>
  Modelled from the spec: the macro \<^verbatim>\<open>THROW\<close> of \<^verbatim>\<open>org_apache_hadoop.h\<close>, which is not among
  the sources. It makes the named exception, with the message, the failure of the call;
  the C function goes on after it.
\<close>

definition THROW :: "string \<Rightarrow> string \<Rightarrow> process \<Rightarrow> process" where
  "THROW exception_name message s = s\<lparr>pending := Some (Thrown exception_name message)\<rparr>"

text \<open>
  Modelled from the spec: the macro \<^verbatim>\<open>LOAD_DYNAMIC_SYMBOL\<close> of \<^verbatim>\<open>org_apache_hadoop.h\<close>, which
  is not among the sources. It resolves the named entry point in the opened library; a
  missing symbol fails with \<open>SymbolResolutionError\<close> and ends the enclosing function.
  The result is the looked-up address (\<^verbatim>\<open>NULL\<close> when missing), which the caller stores in
  its function pointer.
\<close>

definition LOAD_DYNAMIC_SYMBOL :: "dl_world \<Rightarrow> ptr \<Rightarrow> string \<Rightarrow> process \<Rightarrow> ptr \<times> process" where
  "LOAD_DYNAMIC_SYMBOL w handle symbol s =
     (let func_ptr = dlsym w handle symbol;
          s1 = emit [Dlsym handle symbol] s
      in if func_ptr = 0 then (func_ptr, s1\<lparr>pending := Some SymbolResolutionError\<rparr>)
         else (func_ptr, s1))"

text \<open>
  \<^verbatim>\<open>snprintf(msg, n, "%s (%s)!", a, b)\<close>: the formatted text, cut to \<open>n - 1\<close> characters.
\<close>

definition snprintf :: "nat \<Rightarrow> string \<Rightarrow> string \<Rightarrow> string" where
  "snprintf n a b = take (n - 1) (a @ '' ('' @ b @ '')!'')"

subsection \<open>LzfseCompressor.c\<close>

text \<open>\<^verbatim>\<open>Java_org_apache_hadoop_io_compress_lzfse_LzfseCompressor_initIDs\<close>\<close>

definition LzfseCompressor_initIDs :: "dl_world \<Rightarrow> jclass \<Rightarrow> process \<Rightarrow> process" where
  "LzfseCompressor_initIDs w clazz s =
     (let liblzfse = dlopen w (HADOOP_LZFSE_LIBRARY w);
          s = emit [Dlopen (HADOOP_LZFSE_LIBRARY w), Dlerror] s
      in if liblzfse = 0 then
           THROW ''java/lang/UnsatisfiedLinkError''
             (snprintf 1000 (''Cannot load '' @ HADOOP_LZFSE_LIBRARY w) (dlerror w)) s
         else
           let (func_ptr, s) = LOAD_DYNAMIC_SYMBOL w liblzfse ''lzfse_encode_buffer'' s;
               s = s\<lparr>dlsym_lzfse_encode_buffer := func_ptr\<rparr>
           in if func_ptr = 0 then s
              else
                let (f, s) = GetFieldID clazz ''uncompressedBuffer'' ''Ljava/nio/Buffer;'' s;
                    s = s\<lparr>LzfseCompressor_uncompressedBuffer := f\<rparr>;
                    (f, s) = GetFieldID clazz ''compressedBuffer'' ''Ljava/nio/Buffer;'' s;
                    s = s\<lparr>LzfseCompressor_compressedBuffer := f\<rparr>;
                    (f, s) = GetFieldID clazz ''internalBufferSize'' ''I'' s
                in s\<lparr>LzfseCompressor_internalBufferSize := f\<rparr>)"

text \<open>
  \<^verbatim>\<open>Java_org_apache_hadoop_io_compress_lzfse_LzfseCompressor_compressBytesDirect\<close>.
  The result is the returned \<^verbatim>\<open>jsize\<close> and the state the call leaves; \<open>None\<close> is a crash.
\<close>

definition LzfseCompressor_compressBytesDirect ::
    "dl_world \<Rightarrow> jobject \<Rightarrow> jint \<Rightarrow> process \<Rightarrow> (jsize \<times> process) option" where
  "LzfseCompressor_compressBytesDirect w thisj sizej s = do {
     uncompressed_buffer \<leftarrow> GetObjectField thisj (LzfseCompressor_uncompressedBuffer s);
     let src_buffer = GetDirectBufferAddress uncompressed_buffer;
     let src_size = (scast sizej :: size_t);
     compressed_buffer \<leftarrow> GetObjectField thisj (LzfseCompressor_compressedBuffer s);
     let dst_buffer = GetDirectBufferAddress compressed_buffer;
     n \<leftarrow> GetIntField thisj (LzfseCompressor_internalBufferSize s);
     let dst_size = (scast n :: size_t);
     f \<leftarrow> fn_at w (dlsym_lzfse_encode_buffer s);
     let (m, r) = f (mem s) dst_buffer dst_size src_buffer src_size 0;
     let encoded = (ucast r :: jsize);
     let s = emit [Call (dlsym_lzfse_encode_buffer s) dst_buffer dst_size src_buffer src_size 0]
               (s\<lparr>mem := m\<rparr>);
     Some (encoded,
           if encoded = 0 \<and> src_size \<noteq> 0
           then THROW ''java/lang/InternalError'' ''lzfse_encode_buffer failed'' s
           else s)
   }"

text \<open>
  \<^verbatim>\<open>Java_org_apache_hadoop_io_compress_lzfse_LzfseCompressor_getLibraryName\<close>.
  \<^verbatim>\<open>NewStringUTF\<close> turns the C string into the Java string with the same characters.
\<close>

definition LzfseCompressor_getLibraryName :: "dl_world \<Rightarrow> process \<Rightarrow> string \<times> process" where
  "LzfseCompressor_getLibraryName w s =
     (if dlsym_lzfse_encode_buffer s \<noteq> 0 then
        (case dladdr w (dlsym_lzfse_encode_buffer s) of
           Some dli_fname \<Rightarrow> (dli_fname, emit [Dladdr (dlsym_lzfse_encode_buffer s)] s)
         | None \<Rightarrow> (HADOOP_LZFSE_LIBRARY w, emit [Dladdr (dlsym_lzfse_encode_buffer s)] s))
      else (HADOOP_LZFSE_LIBRARY w, s))"

subsection \<open>LzfseDecompressor.c\<close>

text \<open>\<^verbatim>\<open>Java_org_apache_hadoop_io_compress_lzfse_LzfseDecompressor_initIDs\<close>\<close>

definition LzfseDecompressor_initIDs :: "dl_world \<Rightarrow> jclass \<Rightarrow> process \<Rightarrow> process" where
  "LzfseDecompressor_initIDs w clazz s =
     (let liblzfse = dlopen w (HADOOP_LZFSE_LIBRARY w);
          s = emit [Dlopen (HADOOP_LZFSE_LIBRARY w), Dlerror] s
      in if liblzfse = 0 then
           THROW ''java/lang/UnsatisfiedLinkError''
             (snprintf 1000 (''Cannot load '' @ HADOOP_LZFSE_LIBRARY w) (dlerror w)) s
         else
           let (func_ptr, s) = LOAD_DYNAMIC_SYMBOL w liblzfse ''lzfse_decode_buffer'' s;
               s = s\<lparr>dlsym_lzfse_decode_buffer := func_ptr\<rparr>
           in if func_ptr = 0 then s
              else
                let (f, s) = GetFieldID clazz ''compressedBuffer'' ''Ljava/nio/Buffer;'' s;
                    s = s\<lparr>LzfseDecompressor_compressedBuffer := f\<rparr>;
                    (f, s) = GetFieldID clazz ''decompressedBuffer'' ''Ljava/nio/Buffer;'' s;
                    s = s\<lparr>LzfseDecompressor_decompressedBuffer := f\<rparr>;
                    (f, s) = GetFieldID clazz ''internalBufferSize'' ''I'' s
                in s\<lparr>LzfseDecompressor_internalBufferSize := f\<rparr>)"

text \<open>\<^verbatim>\<open>Java_org_apache_hadoop_io_compress_lzfse_LzfseDecompressor_decompressBytesDirect\<close>\<close>

definition LzfseDecompressor_decompressBytesDirect ::
    "dl_world \<Rightarrow> jobject \<Rightarrow> jint \<Rightarrow> process \<Rightarrow> (jsize \<times> process) option" where
  "LzfseDecompressor_decompressBytesDirect w thisj sizej s = do {
     compressed_buffer \<leftarrow> GetObjectField thisj (LzfseDecompressor_compressedBuffer s);
     let src_buffer = GetDirectBufferAddress compressed_buffer;
     let src_size = (scast sizej :: size_t);
     decompressed_buffer \<leftarrow> GetObjectField thisj (LzfseDecompressor_decompressedBuffer s);
     let dst_buffer = GetDirectBufferAddress decompressed_buffer;
     n \<leftarrow> GetIntField thisj (LzfseDecompressor_internalBufferSize s);
     let dst_size = (scast n :: size_t);
     f \<leftarrow> fn_at w (dlsym_lzfse_decode_buffer s);
     let (m, r) = f (mem s) dst_buffer dst_size src_buffer src_size 0;
     let decoded = (ucast r :: jsize);
     let s = emit [Call (dlsym_lzfse_decode_buffer s) dst_buffer dst_size src_buffer src_size 0]
               (s\<lparr>mem := m\<rparr>);
     Some (decoded,
           if decoded = 0 \<and> src_size \<noteq> 0
           then THROW ''java/lang/InternalError'' ''lzfse_encode_buffer failed'' s
           else s)
   }"

subsection \<open>Observing a call\<close>

text \<open>
  What the Java caller sees of a \<^verbatim>\<open>...BytesDirect\<close> call that did not crash: the returned
  \<^verbatim>\<open>jsize\<close>, the exception that is pending when the native function returns, the calls
  that left the bridge, and the byte memory the call leaves. \<open>None\<close> stands for a crash in
  each of them.
\<close>

definition returned :: "(jsize \<times> process) option \<Rightarrow> jsize option" where
  "returned x = map_option fst x"

definition raised :: "(jsize \<times> process) option \<Rightarrow> jthrowable option option" where
  "raised x = map_option (pending \<circ> snd) x"

definition logged :: "(jsize \<times> process) option \<Rightarrow> event list option" where
  "logged x = map_option (events \<circ> snd) x"

definition memory_after :: "(jsize \<times> process) option \<Rightarrow> memory option" where
  "memory_after x = map_option (mem \<circ> snd) x"

text \<open>
  The fields of the receiver and the function pointer are bound: the three field reads of
  a \<^verbatim>\<open>...BytesDirect\<close> call give \<open>ub\<close>, \<open>cb\<close> (or \<open>cb\<close>, \<open>db\<close>) and \<open>n\<close>, and the
  resolved function pointer points at \<open>f\<close>.
\<close>

definition compressor_bound ::
    "dl_world \<Rightarrow> process \<Rightarrow> jobject \<Rightarrow> jbuffer \<Rightarrow> jbuffer \<Rightarrow> jint \<Rightarrow> lzfse_fn \<Rightarrow> bool" where
  "compressor_bound w s thisj ub cb n f \<longleftrightarrow>
     GetObjectField thisj (LzfseCompressor_uncompressedBuffer s) = Some ub \<and>
     GetObjectField thisj (LzfseCompressor_compressedBuffer s) = Some cb \<and>
     GetIntField thisj (LzfseCompressor_internalBufferSize s) = Some n \<and>
     fn_at w (dlsym_lzfse_encode_buffer s) = Some f"

definition decompressor_bound ::
    "dl_world \<Rightarrow> process \<Rightarrow> jobject \<Rightarrow> jbuffer \<Rightarrow> jbuffer \<Rightarrow> jint \<Rightarrow> lzfse_fn \<Rightarrow> bool" where
  "decompressor_bound w s thisj cb db n f \<longleftrightarrow>
     GetObjectField thisj (LzfseDecompressor_compressedBuffer s) = Some cb \<and>
     GetObjectField thisj (LzfseDecompressor_decompressedBuffer s) = Some db \<and>
     GetIntField thisj (LzfseDecompressor_internalBufferSize s) = Some n \<and>
     fn_at w (dlsym_lzfse_decode_buffer s) = Some f"

text \<open>The one foreign call each \<^verbatim>\<open>...BytesDirect\<close> function makes, as it appears in the log.\<close>

definition encode_call :: "process \<Rightarrow> jbuffer \<Rightarrow> jbuffer \<Rightarrow> jint \<Rightarrow> jint \<Rightarrow> event" where
  "encode_call s ub cb n sizej =
     Call (dlsym_lzfse_encode_buffer s) (GetDirectBufferAddress cb) (scast n)
          (GetDirectBufferAddress ub) (scast sizej) 0"

definition decode_call :: "process \<Rightarrow> jbuffer \<Rightarrow> jbuffer \<Rightarrow> jint \<Rightarrow> jint \<Rightarrow> event" where
  "decode_call s cb db n sizej =
     Call (dlsym_lzfse_decode_buffer s) (GetDirectBufferAddress db) (scast n)
          (GetDirectBufferAddress cb) (scast sizej) 0"

text \<open>
  The round trip of the specification's testable properties: compress, and unless that
  call raised, decompress the returned number of bytes.
\<close>

definition compress_then_decompress ::
    "dl_world \<Rightarrow> jobject \<Rightarrow> jobject \<Rightarrow> jint \<Rightarrow> process \<Rightarrow> (jsize \<times> process) option" where
  "compress_then_decompress w compressor decompressor sizej s = do {
     (compressed_size, s1) \<leftarrow> LzfseCompressor_compressBytesDirect w compressor sizej s;
     if pending s1 \<noteq> None then Some (compressed_size, s1)
     else LzfseDecompressor_decompressBytesDirect w decompressor compressed_size s1
   }"

subsection \<open>Byte memory and foreign functions to run the bridge on\<close>

definition load :: "memory \<Rightarrow> ptr \<Rightarrow> nat \<Rightarrow> byte list" where
  "load m a n = map (\<lambda>i. m (a + of_nat i)) [0..<n]"

definition store :: "memory \<Rightarrow> ptr \<Rightarrow> byte list \<Rightarrow> memory" where
  "store m a bs = (\<lambda>x. if unat (x - a) < length bs then bs ! unat (x - a) else m x)"

definition zero_memory :: memory where
  "zero_memory = (\<lambda>a. 0)"

text \<open>A foreign function that writes nothing and returns \<open>r\<close>.\<close>

definition answer :: "size_t \<Rightarrow> lzfse_fn" where
  "answer r = (\<lambda>m dst_buffer dst_size src_buffer src_size scratch. (m, r))"

text \<open>
  A foreign function whose result tells its arguments apart: it copies the byte at
  \<open>src_buffer\<close> to \<open>dst_buffer\<close> and returns \<open>dst_size - src_size + scratch\<close>.
\<close>

definition probe :: lzfse_fn where
  "probe = (\<lambda>m dst_buffer dst_size src_buffer src_size scratch.
     (m(dst_buffer := m src_buffer), dst_size - src_size + scratch))"

text \<open>
  A foreign function that keeps the contract of the liblzfse entry points for a transform
  \<open>t\<close> of byte sequences: it reads \<open>src_size\<close> bytes at \<open>src_buffer\<close>, and when \<open>t\<close> accepts
  them and the output fits in \<open>dst_size\<close> bytes it writes the output at \<open>dst_buffer\<close> and
  returns its length; otherwise it writes nothing and returns \<open>0\<close>.
\<close>

definition buffer_fn :: "(byte list \<Rightarrow> byte list option) \<Rightarrow> lzfse_fn" where
  "buffer_fn t = (\<lambda>m dst_buffer dst_size src_buffer src_size scratch.
     case t (load m src_buffer (unat src_size)) of
       None \<Rightarrow> (m, 0)
     | Some out \<Rightarrow>
         if length out \<le> unat dst_size
         then (store m dst_buffer out, of_nat (length out))
         else (m, 0))"

text \<open>
  A loader that finds \<^verbatim>\<open>liblzfse.so\<close> with both entry points, and variants of it: no
  library, no decode entry point, no answer from \<^verbatim>\<open>dladdr\<close>.
\<close>

definition lzfse_library :: "lzfse_fn \<Rightarrow> lzfse_fn \<Rightarrow> dl_world" where
  "lzfse_library enc dec =
     \<lparr> HADOOP_LZFSE_LIBRARY = ''liblzfse.so'',
       dlopen = (\<lambda>path. if path = ''liblzfse.so'' then 0x7000 else 0),
       dlerror = ''liblzfse.so: cannot open shared object file'',
       dlsym = (\<lambda>handle symbol.
                  if handle = 0x7000 \<and> symbol = ''lzfse_encode_buffer'' then 0x7100
                  else if handle = 0x7000 \<and> symbol = ''lzfse_decode_buffer'' then 0x7200
                  else 0),
       dladdr = (\<lambda>a. if a = 0x7100 \<or> a = 0x7200 then Some ''/usr/lib/liblzfse.so''
                      else None),
       fn_at = (\<lambda>a. if a = 0x7100 then Some enc
                     else if a = 0x7200 then Some dec else None) \<rparr>"

definition no_library :: "dl_world \<Rightarrow> dl_world" where
  "no_library w = w\<lparr>dlopen := (\<lambda>path. 0)\<rparr>"

definition no_decode :: "dl_world \<Rightarrow> dl_world" where
  "no_decode w =
     w\<lparr>dlsym := (\<lambda>handle symbol. if symbol = ''lzfse_decode_buffer'' then 0
                                    else dlsym w handle symbol)\<rparr>"

definition no_dladdr :: "dl_world \<Rightarrow> dl_world" where
  "no_dladdr w = w\<lparr>dladdr := (\<lambda>a. None)\<rparr>"

text \<open>The fields the two Java classes declare, and receivers with direct buffers.\<close>

definition LzfseCompressor_class :: jclass where
  "LzfseCompressor_class =
     [(''uncompressedBuffer'', ''Ljava/nio/Buffer;''),
      (''compressedBuffer'', ''Ljava/nio/Buffer;''),
      (''internalBufferSize'', ''I'')]"

definition LzfseDecompressor_class :: jclass where
  "LzfseDecompressor_class =
     [(''compressedBuffer'', ''Ljava/nio/Buffer;''),
      (''decompressedBuffer'', ''Ljava/nio/Buffer;''),
      (''internalBufferSize'', ''I'')]"

definition compressor_object :: "ptr \<Rightarrow> ptr \<Rightarrow> jint \<Rightarrow> jobject" where
  "compressor_object src dst n =
     [''uncompressedBuffer'' \<mapsto> JBuffer (DirectBuffer src n 0),
      ''compressedBuffer'' \<mapsto> JBuffer (DirectBuffer dst n 0),
      ''internalBufferSize'' \<mapsto> JInt n]"

definition decompressor_object :: "ptr \<Rightarrow> ptr \<Rightarrow> jint \<Rightarrow> jobject" where
  "decompressor_object src dst n =
     [''compressedBuffer'' \<mapsto> JBuffer (DirectBuffer src n 0),
      ''decompressedBuffer'' \<mapsto> JBuffer (DirectBuffer dst n 0),
      ''internalBufferSize'' \<mapsto> JInt n]"

text \<open>
  The process after both \<^verbatim>\<open>initIDs\<close> ran against \<open>lzfse_library\<close>, first the compressor's and
  then the decompressor's (lemma \<open>loaded_by_initIDs\<close>).
\<close>

definition loaded :: "memory \<Rightarrow> process" where
  "loaded m =
     \<lparr> LzfseCompressor_uncompressedBuffer = Some ''uncompressedBuffer'',
       LzfseCompressor_compressedBuffer = Some ''compressedBuffer'',
       LzfseCompressor_internalBufferSize = Some ''internalBufferSize'',
       dlsym_lzfse_encode_buffer = 0x7100,
       LzfseDecompressor_compressedBuffer = Some ''compressedBuffer'',
       LzfseDecompressor_decompressedBuffer = Some ''decompressedBuffer'',
       LzfseDecompressor_internalBufferSize = Some ''internalBufferSize'',
       dlsym_lzfse_decode_buffer = 0x7200,
       pending = None,
       mem = m,
       events = [Dlopen ''liblzfse.so'', Dlerror, Dlsym 0x7000 ''lzfse_encode_buffer'',
                 Dlopen ''liblzfse.so'', Dlerror, Dlsym 0x7000 ''lzfse_decode_buffer''] \<rparr>"

text \<open>The bytes a call left at an address (\<open>None\<close>: the call crashed).\<close>

definition contents :: "(jsize \<times> process) option \<Rightarrow> ptr \<Rightarrow> nat \<Rightarrow> byte list option" where
  "contents x a n = map_option (\<lambda>p. load (mem (snd p)) a n) x"

text \<open>
  The loader calls one \<^verbatim>\<open>initIDs\<close> makes for the symbol it resolves, and the text its
  \<^verbatim>\<open>snprintf\<close> formats when the library cannot be opened.
\<close>

definition open_and_resolve :: "dl_world \<Rightarrow> string \<Rightarrow> event list" where
  "open_and_resolve w symbol =
     Dlopen (HADOOP_LZFSE_LIBRARY w) # Dlerror #
     (if dlopen w (HADOOP_LZFSE_LIBRARY w) = 0 then []
      else [Dlsym (dlopen w (HADOOP_LZFSE_LIBRARY w)) symbol])"

definition load_message :: "dl_world \<Rightarrow> string" where
  "load_message w =
     ''Cannot load '' @ HADOOP_LZFSE_LIBRARY w @ '' ('' @ dlerror w @ '')!''"

section \<open>Properties\<close>

subsection \<open>Conversions between \<^verbatim>\<open>jint\<close> and \<^verbatim>\<open>size_t\<close>\<close>

lemma sint_scast_jint: "sint (scast (x :: jint) :: size_t) = sint x"
  by (rule sint_up_scast) (simp add: is_up)

lemma scast_jint_eq_0: "(scast (x :: jint) :: size_t) = 0 \<longleftrightarrow> x = 0"
proof
  assume "(scast x :: size_t) = 0"
  then have "sint (scast x :: size_t) = 0" by simp
  then have "sint x = 0" by (simp add: sint_scast_jint)
  then show "x = 0" by (simp add: signed_eq_0_iff)
qed simp

lemma unat_ucast_jsize: "unat (ucast (r :: size_t) :: jsize) = unat r mod 2 ^ 32"
  by (simp add: unsigned_ucast_eq take_bit_eq_mod)

lemma ucast_jsize_eq_0:
  assumes "unat (r :: size_t) < 2 ^ 32"
  shows "(ucast r :: jsize) = 0 \<longleftrightarrow> r = 0"
proof -
  have "(ucast r :: jsize) = 0 \<longleftrightarrow> unat (ucast r :: jsize) = 0"
    by (simp add: unsigned_eq_0_iff)
  also have "\<dots> \<longleftrightarrow> unat r = 0" using assms by (simp add: unat_ucast_jsize)
  also have "\<dots> \<longleftrightarrow> r = 0" by (simp add: unsigned_eq_0_iff)
  finally show ?thesis .
qed

lemma sint_ucast_jsize:
  assumes "unat (r :: size_t) < 2 ^ 31"
  shows "sint (ucast r :: jsize) = int (unat r)"
proof -
  have b: "uint r < 2147483648"
    using assms unfolding uint_nat by (simp del: of_nat_unat)
  have c: "0 \<le> uint r" by simp
  have "sint (ucast r :: jsize) = signed_take_bit 31 (uint r)"
    by (simp add: signed_ucast_eq)
  also have "\<dots> = uint r"
  proof (rule signed_take_bit_int_eq_self)
    have "- (2 ^ 31) \<le> (0::int)" by simp
    then show "- (2 ^ 31) \<le> uint r" using c by (rule order_trans)
    show "uint r < 2 ^ 31" using b by simp
  qed
  finally show ?thesis by simp
qed

lemma uint_scast_jint:
  assumes "0 \<le> sint (n :: jint)"
  shows "uint (scast n :: size_t) = sint n"
proof -
  have lt: "sint n < 2147483648" using sint_lt [of n] by simp
  have "uint (scast n :: size_t) = sint n mod 2 ^ 64"
    by (simp only: scast_eq uint_word_of_int len_bit0 len_num1 mult_numeral_left_semiring_numeral)
       simp
  also have "\<dots> = sint n"
    using assms lt by simp
  finally show ?thesis .
qed

subsection \<open>What one call computes\<close>

lemma compress_run:
  assumes "compressor_bound w s thisj ub cb n f"
    and "f (mem s) (GetDirectBufferAddress cb) (scast n)
           (GetDirectBufferAddress ub) (scast sizej) 0 = (m, r)"
  shows "LzfseCompressor_compressBytesDirect w thisj sizej s =
           Some (ucast r,
             if (ucast r :: jsize) = 0 \<and> sizej \<noteq> 0
             then THROW ''java/lang/InternalError'' ''lzfse_encode_buffer failed''
                    (emit [encode_call s ub cb n sizej] (s\<lparr>mem := m\<rparr>))
             else emit [encode_call s ub cb n sizej] (s\<lparr>mem := m\<rparr>))"
  using assms
  by (simp add: compressor_bound_def LzfseCompressor_compressBytesDirect_def encode_call_def
      emit_def scast_jint_eq_0 Let_def)

lemma decompress_run:
  assumes "decompressor_bound w s thisj cb db n f"
    and "f (mem s) (GetDirectBufferAddress db) (scast n)
           (GetDirectBufferAddress cb) (scast sizej) 0 = (m, r)"
  shows "LzfseDecompressor_decompressBytesDirect w thisj sizej s =
           Some (ucast r,
             if (ucast r :: jsize) = 0 \<and> sizej \<noteq> 0
             then THROW ''java/lang/InternalError'' ''lzfse_encode_buffer failed''
                    (emit [decode_call s cb db n sizej] (s\<lparr>mem := m\<rparr>))
             else emit [decode_call s cb db n sizej] (s\<lparr>mem := m\<rparr>))"
  using assms
  by (simp add: decompressor_bound_def LzfseDecompressor_decompressBytesDirect_def decode_call_def
      emit_def scast_jint_eq_0 Let_def)

lemma pending_THROW [simp]: "pending (THROW c msg s) = Some (Thrown c msg)"
  by (simp add: THROW_def)

lemma pending_emit [simp]: "pending (emit es s) = pending s"
  by (simp add: emit_def)

lemma events_THROW [simp]: "events (THROW c msg s) = events s"
  by (simp add: THROW_def)

lemma events_emit [simp]: "events (emit es s) = events s @ es"
  by (simp add: emit_def)

lemma mem_THROW [simp]: "mem (THROW c msg s) = mem s"
  by (simp add: THROW_def)

lemma mem_emit [simp]: "mem (emit es s) = mem s"
  by (simp add: emit_def)

text \<open>The receivers and the loaded process are bound to the two entry points.\<close>

lemma loaded_compressor_bound:
  "compressor_bound (lzfse_library enc dec) (loaded m) (compressor_object src dst n)
     (DirectBuffer src n 0) (DirectBuffer dst n 0) n enc"
  by (simp add: compressor_bound_def loaded_def compressor_object_def lzfse_library_def
      GetObjectField_def GetIntField_def)

lemma loaded_decompressor_bound:
  "decompressor_bound (lzfse_library enc dec) (loaded m) (decompressor_object src dst n)
     (DirectBuffer src n 0) (DirectBuffer dst n 0) n dec"
  by (simp add: decompressor_bound_def loaded_def decompressor_object_def lzfse_library_def
      GetObjectField_def GetIntField_def)

lemma loaded_by_initIDs:
  "LzfseDecompressor_initIDs (lzfse_library enc dec) LzfseDecompressor_class
     (LzfseCompressor_initIDs (lzfse_library enc dec) LzfseCompressor_class (fresh_process m)) =
   loaded m"
  by (simp add: LzfseCompressor_initIDs_def LzfseDecompressor_initIDs_def lzfse_library_def
      LzfseCompressor_class_def LzfseDecompressor_class_def fresh_process_def loaded_def
      LOAD_DYNAMIC_SYMBOL_def GetFieldID_def emit_def Let_def)

text \<open>The two receivers against the loaded process, with foreign functions that only answer.\<close>

lemma compress_answer:
  "LzfseCompressor_compressBytesDirect (lzfse_library (answer r) dec) (compressor_object src dst n)
     sizej (loaded m) =
   Some (ucast r,
     if (ucast r :: jsize) = 0 \<and> sizej \<noteq> 0
     then THROW ''java/lang/InternalError'' ''lzfse_encode_buffer failed''
            (emit [encode_call (loaded m) (DirectBuffer src n 0) (DirectBuffer dst n 0) n sizej]
               ((loaded m)\<lparr>mem := m\<rparr>))
     else emit [encode_call (loaded m) (DirectBuffer src n 0) (DirectBuffer dst n 0) n sizej]
            ((loaded m)\<lparr>mem := m\<rparr>))"
  by (rule compress_run [OF loaded_compressor_bound]) (simp add: answer_def loaded_def)

lemma decompress_answer:
  "LzfseDecompressor_decompressBytesDirect (lzfse_library enc (answer r))
     (decompressor_object src dst n) sizej (loaded m) =
   Some (ucast r,
     if (ucast r :: jsize) = 0 \<and> sizej \<noteq> 0
     then THROW ''java/lang/InternalError'' ''lzfse_encode_buffer failed''
            (emit [decode_call (loaded m) (DirectBuffer src n 0) (DirectBuffer dst n 0) n sizej]
               ((loaded m)\<lparr>mem := m\<rparr>))
     else emit [decode_call (loaded m) (DirectBuffer src n 0) (DirectBuffer dst n 0) n sizej]
            ((loaded m)\<lparr>mem := m\<rparr>))"
  by (rule decompress_run [OF loaded_decompressor_bound]) (simp add: answer_def loaded_def)

subsection \<open>The cached state is written by \<^verbatim>\<open>initIDs\<close> only\<close>

lemma compress_frame:
  assumes "LzfseCompressor_compressBytesDirect w thisj sizej s = Some (e, s')"
  shows "compressor_statics s' = compressor_statics s \<and>
         decompressor_statics s' = decompressor_statics s"
  using assms
  by (auto simp: LzfseCompressor_compressBytesDirect_def compressor_statics_def
      decompressor_statics_def emit_def THROW_def Let_def
      split: Option.bind_splits prod.splits if_splits)

lemma decompress_frame:
  assumes "LzfseDecompressor_decompressBytesDirect w thisj sizej s = Some (e, s')"
  shows "compressor_statics s' = compressor_statics s \<and>
         decompressor_statics s' = decompressor_statics s"
  using assms
  by (auto simp: LzfseDecompressor_decompressBytesDirect_def compressor_statics_def
      decompressor_statics_def emit_def THROW_def Let_def
      split: Option.bind_splits prod.splits if_splits)

lemma getLibraryName_frame:
  "compressor_statics (snd (LzfseCompressor_getLibraryName w s)) = compressor_statics s \<and>
   decompressor_statics (snd (LzfseCompressor_getLibraryName w s)) = decompressor_statics s"
  by (simp add: LzfseCompressor_getLibraryName_def compressor_statics_def
      decompressor_statics_def emit_def split: option.splits)

text \<open>
  C10. A \<^verbatim>\<open>compressBytesDirect\<close> or \<^verbatim>\<open>decompressBytesDirect\<close> call that returns, with or
  without a pending \<open>CodecFailure\<close>, leaves the cached state of both files (the resolved
  function pointers and the cached field identifiers) exactly as it was before the call.
  \<^verbatim>\<open>getLibraryName\<close> leaves it alone as well, so that of all the native functions only
  \<^verbatim>\<open>initIDs\<close> writes it. (The statics are no part of the byte memory the foreign function
  works on.)
\<close>

theorem bytesDirect_keeps_statics:
  "(LzfseCompressor_compressBytesDirect w thisj sizej s = Some (e, s') \<longrightarrow>
      compressor_statics s' = compressor_statics s \<and>
      decompressor_statics s' = decompressor_statics s) \<and>
   (LzfseDecompressor_decompressBytesDirect w thisj' sizej' s = Some (e', s'') \<longrightarrow>
      compressor_statics s'' = compressor_statics s \<and>
      decompressor_statics s'' = decompressor_statics s) \<and>
   compressor_statics (snd (LzfseCompressor_getLibraryName w s)) = compressor_statics s \<and>
   decompressor_statics (snd (LzfseCompressor_getLibraryName w s)) = decompressor_statics s"
  using compress_frame decompress_frame getLibraryName_frame by blast

text \<open>
  A compress call that succeeds and a decompress call that raises, both on the loaded
  process; and \<^verbatim>\<open>initIDs\<close> on a fresh process, which does write the cached state.
\<close>

theorem bytesDirect_keeps_statics_witness:
  "map_option (compressor_statics \<circ> snd)
     (LzfseCompressor_compressBytesDirect (lzfse_library (answer 3) (answer 0))
        (compressor_object 0x100 0x200 16) 5 (loaded zero_memory)) =
     Some (compressor_statics (loaded zero_memory)) \<and>
   map_option (decompressor_statics \<circ> snd)
     (LzfseCompressor_compressBytesDirect (lzfse_library (answer 3) (answer 0))
        (compressor_object 0x100 0x200 16) 5 (loaded zero_memory)) =
     Some (decompressor_statics (loaded zero_memory)) \<and>
   map_option (compressor_statics \<circ> snd)
     (LzfseDecompressor_decompressBytesDirect (lzfse_library (answer 3) (answer 0))
        (decompressor_object 0x200 0x300 16) 3 (loaded zero_memory)) =
     Some (compressor_statics (loaded zero_memory)) \<and>
   map_option (decompressor_statics \<circ> snd)
     (LzfseDecompressor_decompressBytesDirect (lzfse_library (answer 3) (answer 0))
        (decompressor_object 0x200 0x300 16) 3 (loaded zero_memory)) =
     Some (decompressor_statics (loaded zero_memory)) \<and>
   raised (LzfseDecompressor_decompressBytesDirect (lzfse_library (answer 3) (answer 0))
        (decompressor_object 0x200 0x300 16) 3 (loaded zero_memory)) =
     Some (Some (CodecFailure ''lzfse_encode_buffer failed'')) \<and>
   compressor_statics (LzfseCompressor_initIDs (lzfse_library (answer 3) (answer 0))
        LzfseCompressor_class (fresh_process zero_memory)) \<noteq>
     compressor_statics (fresh_process zero_memory)"
proof -
  let ?w = "lzfse_library (answer 3) (answer 0)"
  obtain e s' where c: "LzfseCompressor_compressBytesDirect ?w
        (compressor_object 0x100 0x200 16) 5 (loaded zero_memory) = Some (e, s')"
    by (simp add: compress_answer)
  obtain e' s'' where d: "LzfseDecompressor_decompressBytesDirect ?w
        (decompressor_object 0x200 0x300 16) 3 (loaded zero_memory) = Some (e', s'')"
    by (simp add: decompress_answer)
  have r: "pending s'' = Some (CodecFailure ''lzfse_encode_buffer failed'')"
    using d by (auto simp add: decompress_answer CodecFailure_def)
  have i: "compressor_statics (LzfseCompressor_initIDs ?w
        LzfseCompressor_class (fresh_process zero_memory)) \<noteq>
     compressor_statics (fresh_process zero_memory)"
    by (simp add: LzfseCompressor_initIDs_def lzfse_library_def LzfseCompressor_class_def
        fresh_process_def LOAD_DYNAMIC_SYMBOL_def GetFieldID_def emit_def Let_def
        compressor_statics_def)
  show ?thesis
    using bytesDirect_keeps_statics [of ?w "compressor_object 0x100 0x200 16" 5
        "loaded zero_memory" e s' "decompressor_object 0x200 0x300 16" 3 e' s''] c d r i
    by (simp add: raised_def)
qed

lemma pending_loaded [simp]: "pending (loaded m) = None"
  by (simp add: loaded_def)

lemma mem_loaded [simp]: "mem (loaded m) = m"
  by (simp add: loaded_def)

lemma compress_raised:
  assumes "compressor_bound w s thisj ub cb n f"
    and "f (mem s) (GetDirectBufferAddress cb) (scast n)
           (GetDirectBufferAddress ub) (scast sizej) 0 = (m, r)"
  shows "raised (LzfseCompressor_compressBytesDirect w thisj sizej s) =
           Some (if (ucast r :: jsize) = 0 \<and> sizej \<noteq> 0
                 then Some (CodecFailure ''lzfse_encode_buffer failed'') else pending s)"
  by (simp add: compress_run [OF assms] raised_def CodecFailure_def)

lemma decompress_raised:
  assumes "decompressor_bound w s thisj cb db n f"
    and "f (mem s) (GetDirectBufferAddress db) (scast n)
           (GetDirectBufferAddress cb) (scast sizej) 0 = (m, r)"
  shows "raised (LzfseDecompressor_decompressBytesDirect w thisj sizej s) =
           Some (if (ucast r :: jsize) = 0 \<and> sizej \<noteq> 0
                 then Some (CodecFailure ''lzfse_encode_buffer failed'') else pending s)"
  by (simp add: decompress_run [OF assms] raised_def CodecFailure_def)

lemma compress_returned:
  assumes "compressor_bound w s thisj ub cb n f"
    and "f (mem s) (GetDirectBufferAddress cb) (scast n)
           (GetDirectBufferAddress ub) (scast sizej) 0 = (m, r)"
  shows "returned (LzfseCompressor_compressBytesDirect w thisj sizej s) = Some (ucast r)"
  by (simp add: compress_run [OF assms] returned_def)

lemma decompress_returned:
  assumes "decompressor_bound w s thisj cb db n f"
    and "f (mem s) (GetDirectBufferAddress db) (scast n)
           (GetDirectBufferAddress cb) (scast sizej) 0 = (m, r)"
  shows "returned (LzfseDecompressor_decompressBytesDirect w thisj sizej s) = Some (ucast r)"
  by (simp add: decompress_run [OF assms] returned_def)

lemma compress_logged:
  assumes "compressor_bound w s thisj ub cb n f"
  shows "logged (LzfseCompressor_compressBytesDirect w thisj sizej s) =
           Some (events s @ [encode_call s ub cb n sizej])"
proof -
  obtain m r where "f (mem s) (GetDirectBufferAddress cb) (scast n)
           (GetDirectBufferAddress ub) (scast sizej) 0 = (m, r)"
    by (cases "f (mem s) (GetDirectBufferAddress cb) (scast n)
           (GetDirectBufferAddress ub) (scast sizej) 0")
  then show ?thesis
    by (simp add: compress_run [OF assms] logged_def)
qed

lemma decompress_logged:
  assumes "decompressor_bound w s thisj cb db n f"
  shows "logged (LzfseDecompressor_decompressBytesDirect w thisj sizej s) =
           Some (events s @ [decode_call s cb db n sizej])"
proof -
  obtain m r where "f (mem s) (GetDirectBufferAddress db) (scast n)
           (GetDirectBufferAddress cb) (scast sizej) 0 = (m, r)"
    by (cases "f (mem s) (GetDirectBufferAddress db) (scast n)
           (GetDirectBufferAddress cb) (scast sizej) 0")
  then show ?thesis
    by (simp add: decompress_run [OF assms] logged_def)
qed

subsection \<open>The zero return\<close>

text \<open>
  C1, as the code has it. A \<^verbatim>\<open>compressBytesDirect\<close> or \<^verbatim>\<open>decompressBytesDirect\<close> call whose
  receiver and function pointer are bound returns, and it raises \<open>CodecFailure\<close> exactly
  when the low 32 bits of the foreign function's return value (its value as a \<^verbatim>\<open>jsize\<close>)
  are zero and the given source length is not zero; in every other case, also for a zero
  return with source length zero, no exception is raised. For a return value below
  \<open>2 ^ 32\<close> that is: exactly when the return value is zero and the source length is not.
\<close>

theorem codec_failure_iff_low_bits_zero:
  "(compressor_bound w s thisj ub cb n f \<and>
    f (mem s) (GetDirectBufferAddress cb) (scast n)
      (GetDirectBufferAddress ub) (scast sizej) 0 = (m, r) \<longrightarrow>
      raised (LzfseCompressor_compressBytesDirect w thisj sizej s) =
        Some (if (ucast r :: jsize) = 0 \<and> sizej \<noteq> 0
              then Some (CodecFailure ''lzfse_encode_buffer failed'') else pending s) \<and>
      (unat r < 2 ^ 32 \<longrightarrow>
        raised (LzfseCompressor_compressBytesDirect w thisj sizej s) =
          Some (if r = 0 \<and> sizej \<noteq> 0
                then Some (CodecFailure ''lzfse_encode_buffer failed'') else pending s))) \<and>
   (decompressor_bound w s thisj' cb' db' n' g \<and>
    g (mem s) (GetDirectBufferAddress db') (scast n')
      (GetDirectBufferAddress cb') (scast sizej') 0 = (m', r') \<longrightarrow>
      raised (LzfseDecompressor_decompressBytesDirect w thisj' sizej' s) =
        Some (if (ucast r' :: jsize) = 0 \<and> sizej' \<noteq> 0
              then Some (CodecFailure ''lzfse_encode_buffer failed'') else pending s) \<and>
      (unat r' < 2 ^ 32 \<longrightarrow>
        raised (LzfseDecompressor_decompressBytesDirect w thisj' sizej' s) =
          Some (if r' = 0 \<and> sizej' \<noteq> 0
                then Some (CodecFailure ''lzfse_encode_buffer failed'') else pending s)))"
proof (intro conjI impI; elim conjE)
  assume b: "compressor_bound w s thisj ub cb n f"
    and c: "f (mem s) (GetDirectBufferAddress cb) (scast n)
      (GetDirectBufferAddress ub) (scast sizej) 0 = (m, r)"
  show "raised (LzfseCompressor_compressBytesDirect w thisj sizej s) =
        Some (if (ucast r :: jsize) = 0 \<and> sizej \<noteq> 0
              then Some (CodecFailure ''lzfse_encode_buffer failed'') else pending s)"
    by (rule compress_raised [OF b c])
  assume "unat r < 2 ^ 32"
  then show "raised (LzfseCompressor_compressBytesDirect w thisj sizej s) =
          Some (if r = 0 \<and> sizej \<noteq> 0
                then Some (CodecFailure ''lzfse_encode_buffer failed'') else pending s)"
    by (simp add: compress_raised [OF b c] ucast_jsize_eq_0)
next
  assume b: "decompressor_bound w s thisj' cb' db' n' g"
    and c: "g (mem s) (GetDirectBufferAddress db') (scast n')
      (GetDirectBufferAddress cb') (scast sizej') 0 = (m', r')"
  show "raised (LzfseDecompressor_decompressBytesDirect w thisj' sizej' s) =
        Some (if (ucast r' :: jsize) = 0 \<and> sizej' \<noteq> 0
              then Some (CodecFailure ''lzfse_encode_buffer failed'') else pending s)"
    by (rule decompress_raised [OF b c])
  assume "unat r' < 2 ^ 32"
  then show "raised (LzfseDecompressor_decompressBytesDirect w thisj' sizej' s) =
          Some (if r' = 0 \<and> sizej' \<noteq> 0
                then Some (CodecFailure ''lzfse_encode_buffer failed'') else pending s)"
    by (simp add: decompress_raised [OF b c] ucast_jsize_eq_0)
qed

text \<open>
  A zero return on five bytes of input raises, a zero return on no input does not, a
  return of seven does not.
\<close>

theorem codec_failure_iff_low_bits_zero_witness:
  "raised (LzfseCompressor_compressBytesDirect (lzfse_library (answer 0) (answer 7))
       (compressor_object 0x100 0x200 16) 5 (loaded zero_memory)) =
     Some (Some (CodecFailure ''lzfse_encode_buffer failed'')) \<and>
   raised (LzfseDecompressor_decompressBytesDirect (lzfse_library (answer 0) (answer 7))
       (decompressor_object 0x200 0x300 16) 5 (loaded zero_memory)) = Some None \<and>
   raised (LzfseCompressor_compressBytesDirect (lzfse_library (answer 0) (answer 7))
       (compressor_object 0x100 0x200 16) 0 (loaded zero_memory)) = Some None"
  using codec_failure_iff_low_bits_zero [where w = "lzfse_library (answer 0) (answer 7)"
      and s = "loaded zero_memory"
      and thisj = "compressor_object 0x100 0x200 16" and ub = "DirectBuffer 0x100 16 0"
      and cb = "DirectBuffer 0x200 16 0" and n = 16 and f = "answer 0" and sizej = 0
      and m = zero_memory and r = 0]
    codec_failure_iff_low_bits_zero [where w = "lzfse_library (answer 0) (answer 7)"
      and s = "loaded zero_memory"
      and thisj = "compressor_object 0x100 0x200 16" and ub = "DirectBuffer 0x100 16 0"
      and cb = "DirectBuffer 0x200 16 0" and n = 16 and f = "answer 0" and sizej = 5
      and m = zero_memory and r = 0
      and thisj' = "decompressor_object 0x200 0x300 16" and cb' = "DirectBuffer 0x200 16 0"
      and db' = "DirectBuffer 0x300 16 0" and n' = 16 and g = "answer 7" and sizej' = 5
      and m' = zero_memory and r' = 7]
    loaded_compressor_bound [of "answer 0" "answer 7" zero_memory "0x100" "0x200" 16]
    loaded_decompressor_bound [of "answer 0" "answer 7" zero_memory "0x200" "0x300" 16]
  by (simp add: answer_def loaded_def)

text \<open>
  The claim as the specification words it (the failure is raised exactly when the return
  value is zero and the source length is not) fails where the return value is a non-zero
  multiple of \<open>2 ^ 32\<close>: the foreign function returns \<open>2 ^ 32\<close> for one byte of input, and
  the call raises \<open>CodecFailure\<close>.
\<close>

theorem zero_return_counterexample:
  "snd (answer 0x100000000 zero_memory 0x200 16 0x100 1 0) \<noteq> 0 \<and>
   raised (LzfseCompressor_compressBytesDirect (lzfse_library (answer 0x100000000) (answer 0))
       (compressor_object 0x100 0x200 16) 1 (loaded zero_memory)) =
     Some (Some (CodecFailure ''lzfse_encode_buffer failed''))"
proof -
  have "snd (answer 0x100000000 zero_memory 0x200 16 0x100 1 0) \<noteq> 0"
    by (simp add: answer_def)
  then show ?thesis
    by (simp add: compress_answer raised_def CodecFailure_def)
qed


subsection \<open>The non-zero return\<close>

lemma ucast_jsize_neq_0:
  assumes "r \<noteq> 0" and "unat (r :: size_t) < 2 ^ 31"
  shows "(ucast r :: jsize) \<noteq> 0"
proof -
  have "unat r < 2 ^ 32"
    using assms(2) by simp
  then show ?thesis
    using assms(1) by (simp add: ucast_jsize_eq_0)
qed

text \<open>
  C2, as the code has it. A call whose receiver and function pointer are bound returns
  the foreign function's return value converted to \<^verbatim>\<open>jsize\<close>. When that \<^verbatim>\<open>jsize\<close> is not zero
  the call raises nothing. When the return value is not zero and below \<open>2 ^ 31\<close>, the
  \<^verbatim>\<open>jsize\<close> is not zero and reads as the same number. Nothing relates the return value to
  the destination capacity \<open>n\<close>: the bridge does not compare them.
\<close>

theorem nonzero_return_verbatim:
  "(compressor_bound w s thisj ub cb n f \<and>
    f (mem s) (GetDirectBufferAddress cb) (scast n)
      (GetDirectBufferAddress ub) (scast sizej) 0 = (m, r) \<longrightarrow>
      returned (LzfseCompressor_compressBytesDirect w thisj sizej s) = Some (ucast r) \<and>
      ((ucast r :: jsize) \<noteq> 0 \<longrightarrow>
         raised (LzfseCompressor_compressBytesDirect w thisj sizej s) = Some (pending s)) \<and>
      (r \<noteq> 0 \<and> unat r < 2 ^ 31 \<longrightarrow>
         (ucast r :: jsize) \<noteq> 0 \<and> sint (ucast r :: jsize) = int (unat r))) \<and>
   (decompressor_bound w s thisj' cb' db' n' g \<and>
    g (mem s) (GetDirectBufferAddress db') (scast n')
      (GetDirectBufferAddress cb') (scast sizej') 0 = (m', r') \<longrightarrow>
      returned (LzfseDecompressor_decompressBytesDirect w thisj' sizej' s) = Some (ucast r') \<and>
      ((ucast r' :: jsize) \<noteq> 0 \<longrightarrow>
         raised (LzfseDecompressor_decompressBytesDirect w thisj' sizej' s) = Some (pending s)) \<and>
      (r' \<noteq> 0 \<and> unat r' < 2 ^ 31 \<longrightarrow>
         (ucast r' :: jsize) \<noteq> 0 \<and> sint (ucast r' :: jsize) = int (unat r')))"
proof (intro conjI impI; elim conjE)
  assume b: "compressor_bound w s thisj ub cb n f"
    and c: "f (mem s) (GetDirectBufferAddress cb) (scast n)
      (GetDirectBufferAddress ub) (scast sizej) 0 = (m, r)"
  show "returned (LzfseCompressor_compressBytesDirect w thisj sizej s) = Some (ucast r)"
    by (rule compress_returned [OF b c])
  {
    assume "(ucast r :: jsize) \<noteq> 0"
    then show "raised (LzfseCompressor_compressBytesDirect w thisj sizej s) = Some (pending s)"
      by (simp add: compress_raised [OF b c])
  }
next
  assume b: "decompressor_bound w s thisj' cb' db' n' g"
    and c: "g (mem s) (GetDirectBufferAddress db') (scast n')
      (GetDirectBufferAddress cb') (scast sizej') 0 = (m', r')"
  show "returned (LzfseDecompressor_decompressBytesDirect w thisj' sizej' s) = Some (ucast r')"
    by (rule decompress_returned [OF b c])
  {
    assume "(ucast r' :: jsize) \<noteq> 0"
    then show "raised (LzfseDecompressor_decompressBytesDirect w thisj' sizej' s) = Some (pending s)"
      by (simp add: decompress_raised [OF b c])
  }
next
  assume "r \<noteq> 0" and "unat r < 2 ^ 31"
  then show "(ucast r :: jsize) \<noteq> 0" by (rule ucast_jsize_neq_0)
next
  assume "unat r < 2 ^ 31"
  then show "sint (ucast r :: jsize) = int (unat r)" by (rule sint_ucast_jsize)
next
  assume "r' \<noteq> 0" and "unat r' < 2 ^ 31"
  then show "(ucast r' :: jsize) \<noteq> 0" by (rule ucast_jsize_neq_0)
next
  assume "unat r' < 2 ^ 31"
  then show "sint (ucast r' :: jsize) = int (unat r')" by (rule sint_ucast_jsize)
qed

text \<open>A return of 100 into a destination of capacity 10 is handed on as 100, as a success.\<close>

theorem nonzero_return_verbatim_witness:
  "returned (LzfseCompressor_compressBytesDirect (lzfse_library (answer 100) (answer 40))
       (compressor_object 0x100 0x200 10) 5 (loaded zero_memory)) = Some 100 \<and>
   raised (LzfseCompressor_compressBytesDirect (lzfse_library (answer 100) (answer 40))
       (compressor_object 0x100 0x200 10) 5 (loaded zero_memory)) = Some None \<and>
   returned (LzfseDecompressor_decompressBytesDirect (lzfse_library (answer 100) (answer 40))
       (decompressor_object 0x200 0x300 10) 100 (loaded zero_memory)) = Some 40 \<and>
   raised (LzfseDecompressor_decompressBytesDirect (lzfse_library (answer 100) (answer 40))
       (decompressor_object 0x200 0x300 10) 100 (loaded zero_memory)) = Some None \<and>
   sint (100 :: jsize) = 100 \<and> sint (40 :: jsize) = 40"
  using nonzero_return_verbatim [where w = "lzfse_library (answer 100) (answer 40)"
      and s = "loaded zero_memory"
      and thisj = "compressor_object 0x100 0x200 10" and ub = "DirectBuffer 0x100 10 0"
      and cb = "DirectBuffer 0x200 10 0" and n = 10 and f = "answer 100" and sizej = 5
      and m = zero_memory and r = 100
      and thisj' = "decompressor_object 0x200 0x300 10" and cb' = "DirectBuffer 0x200 10 0"
      and db' = "DirectBuffer 0x300 10 0" and n' = 10 and g = "answer 40" and sizej' = 100
      and m' = zero_memory and r' = 40]
    loaded_compressor_bound [of "answer 100" "answer 40" zero_memory "0x100" "0x200" 10]
    loaded_decompressor_bound [of "answer 100" "answer 40" zero_memory "0x200" "0x300" 10]
  by (simp add: answer_def loaded_def)

text \<open>
  The claim as the specification words it (every non-zero return value is returned
  unchanged) fails above the range of \<^verbatim>\<open>jsize\<close>: a return value of \<open>2 ^ 32 + 5\<close> comes back
  as 5, and one of \<open>2 ^ 31\<close> as \<open>- 2 ^ 31\<close>.
\<close>

theorem nonzero_return_counterexample:
  "snd (answer 0x100000005 zero_memory 0x200 16 0x100 1 0) = 0x100000005 \<and>
   returned (LzfseCompressor_compressBytesDirect (lzfse_library (answer 0x100000005) (answer 0))
       (compressor_object 0x100 0x200 16) 1 (loaded zero_memory)) = Some 5 \<and>
   snd (answer 0x80000000 zero_memory 0x300 16 0x200 1 0) = 0x80000000 \<and>
   map_option sint
     (returned (LzfseDecompressor_decompressBytesDirect (lzfse_library (answer 0) (answer 0x80000000))
       (decompressor_object 0x200 0x300 16) 1 (loaded zero_memory))) = Some (- 2147483648)"
proof -
  have "snd (answer 0x100000005 zero_memory 0x200 16 0x100 1 0) = 0x100000005"
    and "snd (answer 0x80000000 zero_memory 0x300 16 0x200 1 0) = 0x80000000"
    by (simp_all add: answer_def)
  then show ?thesis
    by (simp add: compress_answer decompress_answer returned_def)
qed

subsection \<open>The returned count and the destination capacity\<close>

lemma returned_in_capacity:
  assumes "0 \<le> sint (n :: jint)" and "(r :: size_t) \<le> scast n"
  shows "0 \<le> sint (ucast r :: jsize) \<and> sint (ucast r :: jsize) \<le> sint n"
proof -
  have "uint r \<le> uint (scast n :: size_t)"
    using assms(2) by (simp add: word_le_def)
  then have le: "uint r \<le> sint n"
    by (simp add: uint_scast_jint [OF assms(1)])
  have "sint n < 2147483648" using sint_lt [of n] by simp
  with le have "uint r < 2147483648" by linarith
  then have "unat r < 2 ^ 31"
    unfolding uint_nat by (simp del: of_nat_unat)
  then have "sint (ucast r :: jsize) = int (unat r)" by (rule sint_ucast_jsize)
  then have "sint (ucast r :: jsize) = uint r" by simp
  with le show ?thesis by simp
qed

text \<open>
  C6, as the code has it. The bridge does not bound the returned count itself. When the
  declared capacity \<^verbatim>\<open>internalBufferSize\<close> is not negative and the foreign function keeps
  its contract, returning at most the destination size it was given, then the call
  returns a count that is not negative and at most the declared capacity.
\<close>

theorem returned_within_capacity:
  "(compressor_bound w s thisj ub cb n f \<and>
    f (mem s) (GetDirectBufferAddress cb) (scast n)
      (GetDirectBufferAddress ub) (scast sizej) 0 = (m, r) \<and>
    0 \<le> sint n \<and> r \<le> scast n \<longrightarrow>
      returned (LzfseCompressor_compressBytesDirect w thisj sizej s) = Some (ucast r) \<and>
      0 \<le> sint (ucast r :: jsize) \<and> sint (ucast r :: jsize) \<le> sint n) \<and>
   (decompressor_bound w s thisj' cb' db' n' g \<and>
    g (mem s) (GetDirectBufferAddress db') (scast n')
      (GetDirectBufferAddress cb') (scast sizej') 0 = (m', r') \<and>
    0 \<le> sint n' \<and> r' \<le> scast n' \<longrightarrow>
      returned (LzfseDecompressor_decompressBytesDirect w thisj' sizej' s) = Some (ucast r') \<and>
      0 \<le> sint (ucast r' :: jsize) \<and> sint (ucast r' :: jsize) \<le> sint n')"
proof (intro conjI impI; elim conjE)
  assume b: "compressor_bound w s thisj ub cb n f"
    and c: "f (mem s) (GetDirectBufferAddress cb) (scast n)
      (GetDirectBufferAddress ub) (scast sizej) 0 = (m, r)"
    and k: "0 \<le> sint n" "r \<le> scast n"
  show "returned (LzfseCompressor_compressBytesDirect w thisj sizej s) = Some (ucast r)"
    by (rule compress_returned [OF b c])
  show "0 \<le> sint (ucast r :: jsize)" and "sint (ucast r :: jsize) \<le> sint n"
    using returned_in_capacity [OF k] by simp_all
next
  assume b: "decompressor_bound w s thisj' cb' db' n' g"
    and c: "g (mem s) (GetDirectBufferAddress db') (scast n')
      (GetDirectBufferAddress cb') (scast sizej') 0 = (m', r')"
    and k: "0 \<le> sint n'" "r' \<le> scast n'"
  show "returned (LzfseDecompressor_decompressBytesDirect w thisj' sizej' s) = Some (ucast r')"
    by (rule decompress_returned [OF b c])
  show "0 \<le> sint (ucast r' :: jsize)" and "sint (ucast r' :: jsize) \<le> sint n'"
    using returned_in_capacity [OF k] by simp_all
qed

text \<open>Returns of 9 and 12 into destinations of capacity 16.\<close>

theorem returned_within_capacity_witness:
  "returned (LzfseCompressor_compressBytesDirect (lzfse_library (answer 9) (answer 12))
       (compressor_object 0x100 0x200 16) 5 (loaded zero_memory)) = Some 9 \<and>
   returned (LzfseDecompressor_decompressBytesDirect (lzfse_library (answer 9) (answer 12))
       (decompressor_object 0x200 0x300 16) 9 (loaded zero_memory)) = Some 12 \<and>
   sint (9 :: jsize) \<le> sint (16 :: jint) \<and> sint (12 :: jsize) \<le> sint (16 :: jint)"
  using returned_within_capacity [where w = "lzfse_library (answer 9) (answer 12)"
      and s = "loaded zero_memory"
      and thisj = "compressor_object 0x100 0x200 16" and ub = "DirectBuffer 0x100 16 0"
      and cb = "DirectBuffer 0x200 16 0" and n = 16 and f = "answer 9" and sizej = 5
      and m = zero_memory and r = 9
      and thisj' = "decompressor_object 0x200 0x300 16" and cb' = "DirectBuffer 0x200 16 0"
      and db' = "DirectBuffer 0x300 16 0" and n' = 16 and g = "answer 12" and sizej' = 9
      and m' = zero_memory and r' = 12]
    loaded_compressor_bound [of "answer 9" "answer 12" zero_memory "0x100" "0x200" 16]
    loaded_decompressor_bound [of "answer 9" "answer 12" zero_memory "0x200" "0x300" 16]
  by (simp add: answer_def loaded_def)

text \<open>
  The claim as the specification words it (every successful call returns at most the
  capacity) fails when the foreign function breaks its contract: with a capacity of 10
  and a foreign return of 100 the call succeeds and returns 100.
\<close>

theorem returned_within_capacity_counterexample:
  "returned (LzfseCompressor_compressBytesDirect (lzfse_library (answer 100) (answer 0))
       (compressor_object 0x100 0x200 10) 5 (loaded zero_memory)) = Some 100 \<and>
   raised (LzfseCompressor_compressBytesDirect (lzfse_library (answer 100) (answer 0))
       (compressor_object 0x100 0x200 10) 5 (loaded zero_memory)) = Some None \<and>
   GetIntField (compressor_object 0x100 0x200 10)
       (LzfseCompressor_internalBufferSize (loaded zero_memory)) = Some 10 \<and>
   \<not> sint (100 :: jsize) \<le> sint (10 :: jint)"
proof -
  have "GetIntField (compressor_object 0x100 0x200 10)
       (LzfseCompressor_internalBufferSize (loaded zero_memory)) = Some 10"
    using loaded_compressor_bound [of "answer 100" "answer 0" zero_memory "0x100" "0x200" 10]
    by (simp add: compressor_bound_def)
  then show ?thesis
    by (simp add: compress_answer returned_def raised_def)
qed


subsection \<open>The arguments of the foreign call\<close>

lemma events_loaded [simp]:
  "events (loaded m) =
     [Dlopen ''liblzfse.so'', Dlerror, Dlsym 0x7000 ''lzfse_encode_buffer'',
      Dlopen ''liblzfse.so'', Dlerror, Dlsym 0x7000 ''lzfse_decode_buffer'']"
  by (simp add: loaded_def)

lemma encode_ptr_loaded [simp]: "dlsym_lzfse_encode_buffer (loaded m) = 0x7100"
  by (simp add: loaded_def)

lemma decode_ptr_loaded [simp]: "dlsym_lzfse_decode_buffer (loaded m) = 0x7200"
  by (simp add: loaded_def)

lemma compress_memory_after:
  assumes "compressor_bound w s thisj ub cb n f"
    and "f (mem s) (GetDirectBufferAddress cb) (scast n)
           (GetDirectBufferAddress ub) (scast sizej) 0 = (m, r)"
  shows "memory_after (LzfseCompressor_compressBytesDirect w thisj sizej s) = Some m"
  by (simp add: compress_run [OF assms] memory_after_def)

lemma decompress_memory_after:
  assumes "decompressor_bound w s thisj cb db n f"
    and "f (mem s) (GetDirectBufferAddress db) (scast n)
           (GetDirectBufferAddress cb) (scast sizej) 0 = (m, r)"
  shows "memory_after (LzfseDecompressor_decompressBytesDirect w thisj sizej s) = Some m"
  by (simp add: decompress_run [OF assms] memory_after_def)

lemma probe_apply:
  "probe m dst_buffer dst_size src_buffer src_size scratch =
     (m(dst_buffer := m src_buffer), dst_size - src_size + scratch)"
  by (simp add: probe_def)

text \<open>
  C4. A call whose receiver and function pointer are bound is one application of the
  foreign function behind the resolved pointer, to the memory before the call and the
  arguments in the order destination address, destination size, source address, source
  size, \<^verbatim>\<open>NULL\<close>: the call returns what that application returns (as a \<^verbatim>\<open>jsize\<close>), leaves the
  memory that application leaves, and is the one foreign call logged. The source size
  is the given \<^verbatim>\<open>jint\<close> length and the destination size is the \<^verbatim>\<open>internalBufferSize\<close> field
  of the receiver, both converted to \<^verbatim>\<open>size_t\<close> (the same number when not negative); the
  capacity and the limit of the destination buffer object are not looked at.
\<close>

theorem foreign_call_arguments:
  "(compressor_bound w s thisj ub cb n f \<longrightarrow>
      returned (LzfseCompressor_compressBytesDirect w thisj sizej s) =
        Some (ucast (snd (f (mem s) (GetDirectBufferAddress cb) (scast n)
                           (GetDirectBufferAddress ub) (scast sizej) 0))) \<and>
      memory_after (LzfseCompressor_compressBytesDirect w thisj sizej s) =
        Some (fst (f (mem s) (GetDirectBufferAddress cb) (scast n)
                     (GetDirectBufferAddress ub) (scast sizej) 0)) \<and>
      logged (LzfseCompressor_compressBytesDirect w thisj sizej s) =
        Some (events s @
          [Call (dlsym_lzfse_encode_buffer s) (GetDirectBufferAddress cb) (scast n)
                (GetDirectBufferAddress ub) (scast sizej) 0])) \<and>
   (decompressor_bound w s thisj' cb' db' n' g \<longrightarrow>
      returned (LzfseDecompressor_decompressBytesDirect w thisj' sizej' s) =
        Some (ucast (snd (g (mem s) (GetDirectBufferAddress db') (scast n')
                           (GetDirectBufferAddress cb') (scast sizej') 0))) \<and>
      memory_after (LzfseDecompressor_decompressBytesDirect w thisj' sizej' s) =
        Some (fst (g (mem s) (GetDirectBufferAddress db') (scast n')
                     (GetDirectBufferAddress cb') (scast sizej') 0)) \<and>
      logged (LzfseDecompressor_decompressBytesDirect w thisj' sizej' s) =
        Some (events s @
          [Call (dlsym_lzfse_decode_buffer s) (GetDirectBufferAddress db') (scast n')
                (GetDirectBufferAddress cb') (scast sizej') 0])) \<and>
   (0 \<le> sint sizej \<longrightarrow> uint (scast sizej :: size_t) = sint sizej) \<and>
   (0 \<le> sint n \<longrightarrow> uint (scast n :: size_t) = sint n)"
proof (intro conjI impI)
  assume b: "compressor_bound w s thisj ub cb n f"
  obtain m r where c: "f (mem s) (GetDirectBufferAddress cb) (scast n)
      (GetDirectBufferAddress ub) (scast sizej) 0 = (m, r)"
    by (cases "f (mem s) (GetDirectBufferAddress cb) (scast n)
      (GetDirectBufferAddress ub) (scast sizej) 0")
  show "returned (LzfseCompressor_compressBytesDirect w thisj sizej s) =
        Some (ucast (snd (f (mem s) (GetDirectBufferAddress cb) (scast n)
                           (GetDirectBufferAddress ub) (scast sizej) 0)))"
    by (simp add: compress_returned [OF b c] c)
  show "memory_after (LzfseCompressor_compressBytesDirect w thisj sizej s) =
        Some (fst (f (mem s) (GetDirectBufferAddress cb) (scast n)
                     (GetDirectBufferAddress ub) (scast sizej) 0))"
    by (simp add: compress_memory_after [OF b c] c)
  show "logged (LzfseCompressor_compressBytesDirect w thisj sizej s) =
        Some (events s @
          [Call (dlsym_lzfse_encode_buffer s) (GetDirectBufferAddress cb) (scast n)
                (GetDirectBufferAddress ub) (scast sizej) 0])"
    by (simp add: compress_logged [OF b] encode_call_def)
next
  assume b: "decompressor_bound w s thisj' cb' db' n' g"
  obtain m r where c: "g (mem s) (GetDirectBufferAddress db') (scast n')
      (GetDirectBufferAddress cb') (scast sizej') 0 = (m, r)"
    by (cases "g (mem s) (GetDirectBufferAddress db') (scast n')
      (GetDirectBufferAddress cb') (scast sizej') 0")
  show "returned (LzfseDecompressor_decompressBytesDirect w thisj' sizej' s) =
        Some (ucast (snd (g (mem s) (GetDirectBufferAddress db') (scast n')
                           (GetDirectBufferAddress cb') (scast sizej') 0)))"
    by (simp add: decompress_returned [OF b c] c)
  show "memory_after (LzfseDecompressor_decompressBytesDirect w thisj' sizej' s) =
        Some (fst (g (mem s) (GetDirectBufferAddress db') (scast n')
                     (GetDirectBufferAddress cb') (scast sizej') 0))"
    by (simp add: decompress_memory_after [OF b c] c)
  show "logged (LzfseDecompressor_decompressBytesDirect w thisj' sizej' s) =
        Some (events s @
          [Call (dlsym_lzfse_decode_buffer s) (GetDirectBufferAddress db') (scast n')
                (GetDirectBufferAddress cb') (scast sizej') 0])"
    by (simp add: decompress_logged [OF b] decode_call_def)
next
  assume "0 \<le> sint sizej"
  then show "uint (scast sizej :: size_t) = sint sizej" by (rule uint_scast_jint)
next
  assume "0 \<le> sint n"
  then show "uint (scast n :: size_t) = sint n" by (rule uint_scast_jint)
qed

text \<open>
  Receivers whose buffers have limits 5, 7, 3 and 9 and whose \<^verbatim>\<open>internalBufferSize\<close> is
  64, against \<open>probe\<close>: the byte at the source address arrives at the destination
  address, and the returns 59 and 61 are the destination size 64 less the source sizes 5
  and 3.
\<close>

theorem foreign_call_arguments_witness:
  "returned (LzfseCompressor_compressBytesDirect (lzfse_library probe probe)
       [''uncompressedBuffer'' \<mapsto> JBuffer (DirectBuffer 0x100 64 5),
        ''compressedBuffer'' \<mapsto> JBuffer (DirectBuffer 0x200 64 7),
        ''internalBufferSize'' \<mapsto> JInt 64] 5
       (loaded (zero_memory(0x100 := 65, 0x200 := 66)))) = Some 59 \<and>
   memory_after (LzfseCompressor_compressBytesDirect (lzfse_library probe probe)
       [''uncompressedBuffer'' \<mapsto> JBuffer (DirectBuffer 0x100 64 5),
        ''compressedBuffer'' \<mapsto> JBuffer (DirectBuffer 0x200 64 7),
        ''internalBufferSize'' \<mapsto> JInt 64] 5
       (loaded (zero_memory(0x100 := 65, 0x200 := 66)))) =
     Some (zero_memory(0x100 := 65, 0x200 := 65)) \<and>
   logged (LzfseCompressor_compressBytesDirect (lzfse_library probe probe)
       [''uncompressedBuffer'' \<mapsto> JBuffer (DirectBuffer 0x100 64 5),
        ''compressedBuffer'' \<mapsto> JBuffer (DirectBuffer 0x200 64 7),
        ''internalBufferSize'' \<mapsto> JInt 64] 5
       (loaded (zero_memory(0x100 := 65, 0x200 := 66)))) =
     Some (events (loaded zero_memory) @ [Call 0x7100 0x200 64 0x100 5 0]) \<and>
   returned (LzfseDecompressor_decompressBytesDirect (lzfse_library probe probe)
       [''compressedBuffer'' \<mapsto> JBuffer (DirectBuffer 0x200 64 3),
        ''decompressedBuffer'' \<mapsto> JBuffer (DirectBuffer 0x300 64 9),
        ''internalBufferSize'' \<mapsto> JInt 64] 3
       (loaded (zero_memory(0x100 := 65, 0x200 := 66)))) = Some 61 \<and>
   memory_after (LzfseDecompressor_decompressBytesDirect (lzfse_library probe probe)
       [''compressedBuffer'' \<mapsto> JBuffer (DirectBuffer 0x200 64 3),
        ''decompressedBuffer'' \<mapsto> JBuffer (DirectBuffer 0x300 64 9),
        ''internalBufferSize'' \<mapsto> JInt 64] 3
       (loaded (zero_memory(0x100 := 65, 0x200 := 66)))) =
     Some (zero_memory(0x100 := 65, 0x200 := 66, 0x300 := 66)) \<and>
   logged (LzfseDecompressor_decompressBytesDirect (lzfse_library probe probe)
       [''compressedBuffer'' \<mapsto> JBuffer (DirectBuffer 0x200 64 3),
        ''decompressedBuffer'' \<mapsto> JBuffer (DirectBuffer 0x300 64 9),
        ''internalBufferSize'' \<mapsto> JInt 64] 3
       (loaded (zero_memory(0x100 := 65, 0x200 := 66)))) =
     Some (events (loaded zero_memory) @ [Call 0x7200 0x300 64 0x200 3 0]) \<and>
   uint (scast (5 :: jint) :: size_t) = 5 \<and> uint (scast (64 :: jint) :: size_t) = 64"
proof -
  let ?w = "lzfse_library probe probe"
  let ?m = "zero_memory(0x100 := 65, 0x200 := 66)"
  let ?c = "[''uncompressedBuffer'' \<mapsto> JBuffer (DirectBuffer 0x100 64 5),
        ''compressedBuffer'' \<mapsto> JBuffer (DirectBuffer 0x200 64 7),
        ''internalBufferSize'' \<mapsto> JInt 64] :: jobject"
  let ?d = "[''compressedBuffer'' \<mapsto> JBuffer (DirectBuffer 0x200 64 3),
        ''decompressedBuffer'' \<mapsto> JBuffer (DirectBuffer 0x300 64 9),
        ''internalBufferSize'' \<mapsto> JInt 64] :: jobject"
  have c: "compressor_bound ?w (loaded ?m) ?c
      (DirectBuffer 0x100 64 5) (DirectBuffer 0x200 64 7) 64 probe"
    by (simp add: compressor_bound_def loaded_def lzfse_library_def GetObjectField_def
        GetIntField_def)
  have d: "decompressor_bound ?w (loaded ?m) ?d
      (DirectBuffer 0x200 64 3) (DirectBuffer 0x300 64 9) 64 probe"
    by (simp add: decompressor_bound_def loaded_def lzfse_library_def GetObjectField_def
        GetIntField_def)
  show ?thesis
    using foreign_call_arguments [where w = ?w and s = "loaded ?m"
        and thisj = ?c and ub = "DirectBuffer 0x100 64 5" and cb = "DirectBuffer 0x200 64 7"
        and n = 64 and f = probe and sizej = 5
        and thisj' = ?d and cb' = "DirectBuffer 0x200 64 3" and db' = "DirectBuffer 0x300 64 9"
        and n' = 64 and g = probe and sizej' = 3] c d
    by (simp add: probe_apply)
qed

subsection \<open>The message of the decompressor's failure\<close>

lemma decompress_pending_cases:
  assumes "LzfseDecompressor_decompressBytesDirect w thisj sizej s = Some (e, s')"
  shows "(e = 0 \<and> sizej \<noteq> 0 \<and>
            pending s' = Some (Thrown ''java/lang/InternalError'' ''lzfse_encode_buffer failed'')) \<or>
         (\<not> (e = 0 \<and> sizej \<noteq> 0) \<and> pending s' = pending s)"
  using assms
  by (auto simp: LzfseDecompressor_decompressBytesDirect_def Let_def scast_jint_eq_0
      split: Option.bind_splits prod.splits if_splits)

text \<open>
  C9. The only exception a \<^verbatim>\<open>decompressBytesDirect\<close> call leaves pending is the
  \<open>CodecFailure\<close> (a \<^verbatim>\<open>java/lang/InternalError\<close>) with the message
  \<^verbatim>\<open>lzfse_encode_buffer failed\<close>, which names the encode entry point; it is raised when the
  decode entry point returned zero (as a \<^verbatim>\<open>jsize\<close>) for a non-zero input length.
\<close>

theorem decompress_failure_message:
  "(LzfseDecompressor_decompressBytesDirect w thisj sizej s = Some (e, s') \<and>
    pending s = None \<and> pending s' = Some x \<longrightarrow>
      x = CodecFailure ''lzfse_encode_buffer failed'' \<and> e = 0 \<and> sizej \<noteq> 0) \<and>
   (decompressor_bound w s thisj cb db n g \<and>
    g (mem s) (GetDirectBufferAddress db) (scast n)
      (GetDirectBufferAddress cb) (scast sizej) 0 = (m, r) \<and>
    (ucast r :: jsize) = 0 \<and> sizej \<noteq> 0 \<longrightarrow>
      raised (LzfseDecompressor_decompressBytesDirect w thisj sizej s) =
        Some (Some (Thrown ''java/lang/InternalError'' ''lzfse_encode_buffer failed'')))"
proof (intro conjI impI; elim conjE)
  assume "LzfseDecompressor_decompressBytesDirect w thisj sizej s = Some (e, s')"
    and "pending s = None" and "pending s' = Some x"
  then show "x = CodecFailure ''lzfse_encode_buffer failed''" and "e = 0" and "sizej \<noteq> 0"
    using decompress_pending_cases [of w thisj sizej s e s']
    by (auto simp: CodecFailure_def)
next
  assume b: "decompressor_bound w s thisj cb db n g"
    and c: "g (mem s) (GetDirectBufferAddress db) (scast n)
      (GetDirectBufferAddress cb) (scast sizej) 0 = (m, r)"
    and "(ucast r :: jsize) = 0" and "sizej \<noteq> 0"
  then show "raised (LzfseDecompressor_decompressBytesDirect w thisj sizej s) =
        Some (Some (Thrown ''java/lang/InternalError'' ''lzfse_encode_buffer failed''))"
    by (simp add: decompress_raised [OF b c] CodecFailure_def)
qed

text \<open>The decode entry point answers 0 to four bytes of input.\<close>

theorem decompress_failure_message_witness:
  "raised (LzfseDecompressor_decompressBytesDirect (lzfse_library (answer 4) (answer 0))
       (decompressor_object 0x200 0x300 16) 4 (loaded zero_memory)) =
     Some (Some (Thrown ''java/lang/InternalError'' ''lzfse_encode_buffer failed'')) \<and>
   CodecFailure ''lzfse_encode_buffer failed'' =
     Thrown ''java/lang/InternalError'' ''lzfse_encode_buffer failed''"
proof -
  let ?call = "LzfseDecompressor_decompressBytesDirect (lzfse_library (answer 4) (answer 0))
       (decompressor_object 0x200 0x300 16) 4 (loaded zero_memory)"
  obtain s' where r: "?call = Some (0, s')"
    and p: "pending s' = Some (Thrown ''java/lang/InternalError'' ''lzfse_encode_buffer failed'')"
    by (simp add: decompress_answer)
  have "Thrown ''java/lang/InternalError'' ''lzfse_encode_buffer failed'' =
          CodecFailure ''lzfse_encode_buffer failed''"
    using decompress_failure_message [where w = "lzfse_library (answer 4) (answer 0)"
        and thisj = "decompressor_object 0x200 0x300 16" and sizej = 4
        and s = "loaded zero_memory" and e = 0 and s' = s'
        and x = "Thrown ''java/lang/InternalError'' ''lzfse_encode_buffer failed''"
        and cb = "DirectBuffer 0x200 16 0" and db = "DirectBuffer 0x300 16 0" and n = 16
        and g = "answer 0" and m = zero_memory and r = 0] r p
      loaded_decompressor_bound [of "answer 4" "answer 0" zero_memory "0x200" "0x300" 16]
    by (simp add: answer_def)
  then show ?thesis
    using r p by (simp add: raised_def)
qed

subsection \<open>What \<^verbatim>\<open>initIDs\<close> does\<close>

lemma Compressor_initIDs_events:
  "events (LzfseCompressor_initIDs w clazz s) = events s @ open_and_resolve w ''lzfse_encode_buffer''"
  by (simp add: LzfseCompressor_initIDs_def open_and_resolve_def Let_def LOAD_DYNAMIC_SYMBOL_def
      GetFieldID_def emit_def THROW_def split: prod.splits)

lemma Decompressor_initIDs_events:
  "events (LzfseDecompressor_initIDs w clazz s) = events s @ open_and_resolve w ''lzfse_decode_buffer''"
  by (simp add: LzfseDecompressor_initIDs_def open_and_resolve_def Let_def LOAD_DYNAMIC_SYMBOL_def
      GetFieldID_def emit_def THROW_def split: prod.splits)

lemma Compressor_initIDs_no_library:
  assumes "dlopen w (HADOOP_LZFSE_LIBRARY w) = 0"
  shows "pending (LzfseCompressor_initIDs w clazz s) =
           Some (LibraryLoadError (take 999 (load_message w)))"
    and "compressor_statics (LzfseCompressor_initIDs w clazz s) = compressor_statics s"
  using assms
  by (simp_all add: LzfseCompressor_initIDs_def Let_def LibraryLoadError_def
      snprintf_def load_message_def compressor_statics_def THROW_def emit_def)

lemma Decompressor_initIDs_no_library:
  assumes "dlopen w (HADOOP_LZFSE_LIBRARY w) = 0"
  shows "pending (LzfseDecompressor_initIDs w clazz s) =
           Some (LibraryLoadError (take 999 (load_message w)))"
    and "decompressor_statics (LzfseDecompressor_initIDs w clazz s) = decompressor_statics s"
  using assms
  by (simp_all add: LzfseDecompressor_initIDs_def Let_def LibraryLoadError_def
      snprintf_def load_message_def decompressor_statics_def THROW_def emit_def)

lemma Compressor_initIDs_no_symbol:
  assumes "dlopen w (HADOOP_LZFSE_LIBRARY w) \<noteq> 0"
    and "dlsym w (dlopen w (HADOOP_LZFSE_LIBRARY w)) ''lzfse_encode_buffer'' = 0"
  shows "pending (LzfseCompressor_initIDs w clazz s) = Some SymbolResolutionError"
    and "dlsym_lzfse_encode_buffer (LzfseCompressor_initIDs w clazz s) = 0"
  using assms
  by (simp_all add: LzfseCompressor_initIDs_def Let_def LOAD_DYNAMIC_SYMBOL_def emit_def)

lemma Decompressor_initIDs_no_symbol:
  assumes "dlopen w (HADOOP_LZFSE_LIBRARY w) \<noteq> 0"
    and "dlsym w (dlopen w (HADOOP_LZFSE_LIBRARY w)) ''lzfse_decode_buffer'' = 0"
  shows "pending (LzfseDecompressor_initIDs w clazz s) = Some SymbolResolutionError"
    and "dlsym_lzfse_decode_buffer (LzfseDecompressor_initIDs w clazz s) = 0"
  using assms
  by (simp_all add: LzfseDecompressor_initIDs_def Let_def LOAD_DYNAMIC_SYMBOL_def emit_def)

lemma Compressor_initIDs_resolved:
  assumes "dlopen w (HADOOP_LZFSE_LIBRARY w) \<noteq> 0"
    and "dlsym w (dlopen w (HADOOP_LZFSE_LIBRARY w)) ''lzfse_encode_buffer'' \<noteq> 0"
  shows "dlsym_lzfse_encode_buffer (LzfseCompressor_initIDs w clazz s) =
           dlsym w (dlopen w (HADOOP_LZFSE_LIBRARY w)) ''lzfse_encode_buffer''"
    and "pending s = None \<Longrightarrow> pending (LzfseCompressor_initIDs w clazz s) \<noteq> Some SymbolResolutionError"
    and "pending s = None \<Longrightarrow> set LzfseCompressor_class \<subseteq> set clazz \<Longrightarrow>
           pending (LzfseCompressor_initIDs w clazz s) = None"
  using assms
  by (simp_all add: LzfseCompressor_initIDs_def Let_def LOAD_DYNAMIC_SYMBOL_def emit_def
      GetFieldID_def LzfseCompressor_class_def split: prod.splits)

lemma Decompressor_initIDs_resolved:
  assumes "dlopen w (HADOOP_LZFSE_LIBRARY w) \<noteq> 0"
    and "dlsym w (dlopen w (HADOOP_LZFSE_LIBRARY w)) ''lzfse_decode_buffer'' \<noteq> 0"
  shows "dlsym_lzfse_decode_buffer (LzfseDecompressor_initIDs w clazz s) =
           dlsym w (dlopen w (HADOOP_LZFSE_LIBRARY w)) ''lzfse_decode_buffer''"
    and "pending s = None \<Longrightarrow> pending (LzfseDecompressor_initIDs w clazz s) \<noteq> Some SymbolResolutionError"
    and "pending s = None \<Longrightarrow> set LzfseDecompressor_class \<subseteq> set clazz \<Longrightarrow>
           pending (LzfseDecompressor_initIDs w clazz s) = None"
  using assms
  by (simp_all add: LzfseDecompressor_initIDs_def Let_def LOAD_DYNAMIC_SYMBOL_def emit_def
      GetFieldID_def LzfseDecompressor_class_def split: prod.splits)

lemma Compressor_initIDs_twice:
  "compressor_statics (LzfseCompressor_initIDs w clazz (LzfseCompressor_initIDs w clazz s)) =
   compressor_statics (LzfseCompressor_initIDs w clazz s)"
  by (simp add: LzfseCompressor_initIDs_def Let_def LOAD_DYNAMIC_SYMBOL_def emit_def
      GetFieldID_def THROW_def compressor_statics_def split: prod.splits)

lemma Decompressor_initIDs_twice:
  "decompressor_statics (LzfseDecompressor_initIDs w clazz (LzfseDecompressor_initIDs w clazz s)) =
   decompressor_statics (LzfseDecompressor_initIDs w clazz s)"
  by (simp add: LzfseDecompressor_initIDs_def Let_def LOAD_DYNAMIC_SYMBOL_def emit_def
      GetFieldID_def THROW_def decompressor_statics_def split: prod.splits)

subsection \<open>Failures of \<^verbatim>\<open>initIDs\<close>\<close>

lemma lzfse_library_fields [simp]:
  "HADOOP_LZFSE_LIBRARY (lzfse_library enc dec) = ''liblzfse.so''"
  "dlopen (lzfse_library enc dec) ''liblzfse.so'' = 0x7000"
  "dlerror (lzfse_library enc dec) = ''liblzfse.so: cannot open shared object file''"
  "dlsym (lzfse_library enc dec) 0x7000 ''lzfse_encode_buffer'' = 0x7100"
  "dlsym (lzfse_library enc dec) 0x7000 ''lzfse_decode_buffer'' = 0x7200"
  "dladdr (lzfse_library enc dec) 0x7100 = Some ''/usr/lib/liblzfse.so''"
  by (simp_all add: lzfse_library_def)

lemma no_library_fields [simp]:
  "HADOOP_LZFSE_LIBRARY (no_library w) = HADOOP_LZFSE_LIBRARY w"
  "dlopen (no_library w) path = 0"
  "dlerror (no_library w) = dlerror w"
  by (simp_all add: no_library_def)

lemma no_decode_fields [simp]:
  "HADOOP_LZFSE_LIBRARY (no_decode w) = HADOOP_LZFSE_LIBRARY w"
  "dlopen (no_decode w) = dlopen w"
  "dlsym (no_decode w) handle ''lzfse_decode_buffer'' = 0"
  "dlsym (no_decode w) handle ''lzfse_encode_buffer'' = dlsym w handle ''lzfse_encode_buffer''"
  by (simp_all add: no_decode_def)

lemma no_dladdr_fields [simp]:
  "HADOOP_LZFSE_LIBRARY (no_dladdr w) = HADOOP_LZFSE_LIBRARY w"
  "dlopen (no_dladdr w) = dlopen w"
  "dlsym (no_dladdr w) = dlsym w"
  "dladdr (no_dladdr w) a = None"
  by (simp_all add: no_dladdr_def)

lemma fresh_process_fields [simp]:
  "pending (fresh_process m) = None"
  "events (fresh_process m) = []"
  "dlsym_lzfse_encode_buffer (fresh_process m) = 0"
  "dlsym_lzfse_decode_buffer (fresh_process m) = 0"
  by (simp_all add: fresh_process_def)

text \<open>
  C3, as the code has it. When \<^verbatim>\<open>dlopen\<close> of the configured library fails, each \<^verbatim>\<open>initIDs\<close>
  fails with \<open>LibraryLoadError\<close>, whose message is the text
  \<^verbatim>\<open>Cannot load <library> (<dlerror diagnostic>)!\<close> cut to 999 characters, and resolves
  nothing. When it succeeds, the compressor's \<^verbatim>\<open>initIDs\<close> looks up \<^verbatim>\<open>lzfse_encode_buffer\<close> only
  and the decompressor's looks up \<^verbatim>\<open>lzfse_decode_buffer\<close> only; entered with no exception
  pending, each fails with \<open>SymbolResolutionError\<close> exactly when its own symbol is
  missing.
\<close>

theorem initIDs_failures:
  "(dlopen w (HADOOP_LZFSE_LIBRARY w) = 0 \<longrightarrow>
      pending (LzfseCompressor_initIDs w clazz s) =
        Some (LibraryLoadError (take 999 (load_message w))) \<and>
      pending (LzfseDecompressor_initIDs w clazz s) =
        Some (LibraryLoadError (take 999 (load_message w))) \<and>
      events (LzfseCompressor_initIDs w clazz s) =
        events s @ [Dlopen (HADOOP_LZFSE_LIBRARY w), Dlerror] \<and>
      events (LzfseDecompressor_initIDs w clazz s) =
        events s @ [Dlopen (HADOOP_LZFSE_LIBRARY w), Dlerror]) \<and>
   (dlopen w (HADOOP_LZFSE_LIBRARY w) \<noteq> 0 \<longrightarrow>
      events (LzfseCompressor_initIDs w clazz s) =
        events s @ [Dlopen (HADOOP_LZFSE_LIBRARY w), Dlerror,
                    Dlsym (dlopen w (HADOOP_LZFSE_LIBRARY w)) ''lzfse_encode_buffer''] \<and>
      events (LzfseDecompressor_initIDs w clazz s) =
        events s @ [Dlopen (HADOOP_LZFSE_LIBRARY w), Dlerror,
                    Dlsym (dlopen w (HADOOP_LZFSE_LIBRARY w)) ''lzfse_decode_buffer''] \<and>
      (pending s = None \<longrightarrow>
         (pending (LzfseCompressor_initIDs w clazz s) = Some SymbolResolutionError) =
           (dlsym w (dlopen w (HADOOP_LZFSE_LIBRARY w)) ''lzfse_encode_buffer'' = 0) \<and>
         (pending (LzfseDecompressor_initIDs w clazz s) = Some SymbolResolutionError) =
           (dlsym w (dlopen w (HADOOP_LZFSE_LIBRARY w)) ''lzfse_decode_buffer'' = 0)))"
proof (intro conjI impI)
  assume z: "dlopen w (HADOOP_LZFSE_LIBRARY w) = 0"
  show "pending (LzfseCompressor_initIDs w clazz s) =
        Some (LibraryLoadError (take 999 (load_message w)))"
    by (rule Compressor_initIDs_no_library(1) [OF z])
  show "pending (LzfseDecompressor_initIDs w clazz s) =
        Some (LibraryLoadError (take 999 (load_message w)))"
    by (rule Decompressor_initIDs_no_library(1) [OF z])
  show "events (LzfseCompressor_initIDs w clazz s) =
        events s @ [Dlopen (HADOOP_LZFSE_LIBRARY w), Dlerror]"
    using z by (simp add: Compressor_initIDs_events open_and_resolve_def)
  show "events (LzfseDecompressor_initIDs w clazz s) =
        events s @ [Dlopen (HADOOP_LZFSE_LIBRARY w), Dlerror]"
    using z by (simp add: Decompressor_initIDs_events open_and_resolve_def)
next
  assume nz: "dlopen w (HADOOP_LZFSE_LIBRARY w) \<noteq> 0"
  show "events (LzfseCompressor_initIDs w clazz s) =
        events s @ [Dlopen (HADOOP_LZFSE_LIBRARY w), Dlerror,
                    Dlsym (dlopen w (HADOOP_LZFSE_LIBRARY w)) ''lzfse_encode_buffer'']"
    using nz by (simp add: Compressor_initIDs_events open_and_resolve_def)
  show "events (LzfseDecompressor_initIDs w clazz s) =
        events s @ [Dlopen (HADOOP_LZFSE_LIBRARY w), Dlerror,
                    Dlsym (dlopen w (HADOOP_LZFSE_LIBRARY w)) ''lzfse_decode_buffer'']"
    using nz by (simp add: Decompressor_initIDs_events open_and_resolve_def)
  assume p: "pending s = None"
  show "(pending (LzfseCompressor_initIDs w clazz s) = Some SymbolResolutionError) =
           (dlsym w (dlopen w (HADOOP_LZFSE_LIBRARY w)) ''lzfse_encode_buffer'' = 0)"
    using Compressor_initIDs_no_symbol(1) [OF nz, of clazz s]
      Compressor_initIDs_resolved(2) [OF nz _ p, of clazz]
    by blast
  show "(pending (LzfseDecompressor_initIDs w clazz s) = Some SymbolResolutionError) =
           (dlsym w (dlopen w (HADOOP_LZFSE_LIBRARY w)) ''lzfse_decode_buffer'' = 0)"
    using Decompressor_initIDs_no_symbol(1) [OF nz, of clazz s]
      Decompressor_initIDs_resolved(2) [OF nz _ p, of clazz]
    by blast
qed

text \<open>
  No library: the load error with the diagnostic. A library without the decode entry
  point: the decompressor's \<^verbatim>\<open>initIDs\<close> fails, the compressor's does not.
\<close>

theorem initIDs_failures_witness:
  "pending (LzfseCompressor_initIDs (no_library (lzfse_library (answer 0) (answer 0)))
       LzfseCompressor_class (fresh_process zero_memory)) =
     Some (Thrown ''java/lang/UnsatisfiedLinkError''
       ''Cannot load liblzfse.so (liblzfse.so: cannot open shared object file)!'') \<and>
   pending (LzfseDecompressor_initIDs (no_decode (lzfse_library (answer 0) (answer 0)))
       LzfseDecompressor_class (fresh_process zero_memory)) = Some SymbolResolutionError \<and>
   pending (LzfseCompressor_initIDs (no_decode (lzfse_library (answer 0) (answer 0)))
       LzfseCompressor_class (fresh_process zero_memory)) \<noteq> Some SymbolResolutionError"
  using initIDs_failures [of "no_library (lzfse_library (answer 0) (answer 0))"
      LzfseCompressor_class "fresh_process zero_memory"]
    initIDs_failures [of "no_decode (lzfse_library (answer 0) (answer 0))"
      LzfseDecompressor_class "fresh_process zero_memory"]
    initIDs_failures [of "no_decode (lzfse_library (answer 0) (answer 0))"
      LzfseCompressor_class "fresh_process zero_memory"]
  by (simp add: LibraryLoadError_def load_message_def)

text \<open>
  The claim as the specification words it (each initialization resolves both entry points
  and fails if either is missing) fails for a library without \<^verbatim>\<open>lzfse_decode_buffer\<close>: the
  compressor's \<^verbatim>\<open>initIDs\<close> completes with no exception, having looked up the encode entry
  point only.
\<close>

theorem initIDs_one_symbol_counterexample:
  "dlopen (no_decode (lzfse_library (answer 0) (answer 0)))
     (HADOOP_LZFSE_LIBRARY (no_decode (lzfse_library (answer 0) (answer 0)))) = 0x7000 \<and>
   dlsym (no_decode (lzfse_library (answer 0) (answer 0))) 0x7000 ''lzfse_decode_buffer'' = 0 \<and>
   pending (LzfseCompressor_initIDs (no_decode (lzfse_library (answer 0) (answer 0)))
       LzfseCompressor_class (fresh_process zero_memory)) = None \<and>
   events (LzfseCompressor_initIDs (no_decode (lzfse_library (answer 0) (answer 0)))
       LzfseCompressor_class (fresh_process zero_memory)) =
     [Dlopen ''liblzfse.so'', Dlerror, Dlsym 0x7000 ''lzfse_encode_buffer'']"
proof -
  let ?w = "no_decode (lzfse_library (answer 0) (answer 0))"
  have "pending (LzfseCompressor_initIDs ?w LzfseCompressor_class (fresh_process zero_memory)) = None"
    by (rule Compressor_initIDs_resolved(3)) simp_all
  then show ?thesis
    by (simp add: Compressor_initIDs_events open_and_resolve_def)
qed

subsection \<open>Calling \<^verbatim>\<open>initIDs\<close> again\<close>

text \<open>
  C7, as the code has it. \<^verbatim>\<open>initIDs\<close> has no guard: every call opens the library and, when
  that succeeds, resolves its symbol, so two calls run the open and resolve steps twice.
  What a second call does not change is the cached state: against the same loader, the
  function pointer and the field identifiers after two calls are those after one.
\<close>

theorem initIDs_repeats_open_and_resolve:
  "compressor_statics (LzfseCompressor_initIDs w clazz (LzfseCompressor_initIDs w clazz s)) =
     compressor_statics (LzfseCompressor_initIDs w clazz s) \<and>
   decompressor_statics (LzfseDecompressor_initIDs w clazz (LzfseDecompressor_initIDs w clazz s)) =
     decompressor_statics (LzfseDecompressor_initIDs w clazz s) \<and>
   events (LzfseCompressor_initIDs w clazz s) =
     events s @ open_and_resolve w ''lzfse_encode_buffer'' \<and>
   events (LzfseDecompressor_initIDs w clazz s) =
     events s @ open_and_resolve w ''lzfse_decode_buffer'' \<and>
   events (LzfseCompressor_initIDs w clazz (LzfseCompressor_initIDs w clazz s)) =
     events s @ open_and_resolve w ''lzfse_encode_buffer''
              @ open_and_resolve w ''lzfse_encode_buffer'' \<and>
   events (LzfseDecompressor_initIDs w clazz (LzfseDecompressor_initIDs w clazz s)) =
     events s @ open_and_resolve w ''lzfse_decode_buffer''
              @ open_and_resolve w ''lzfse_decode_buffer''"
  by (simp add: Compressor_initIDs_twice Decompressor_initIDs_twice
      Compressor_initIDs_events Decompressor_initIDs_events)

text \<open>The cached state after one and after two calls of the compressor's \<^verbatim>\<open>initIDs\<close>.\<close>

theorem initIDs_repeats_open_and_resolve_witness:
  "compressor_statics (LzfseCompressor_initIDs (lzfse_library (answer 0) (answer 0))
       LzfseCompressor_class (LzfseCompressor_initIDs (lzfse_library (answer 0) (answer 0))
          LzfseCompressor_class (fresh_process zero_memory))) =
     (0x7100, Some ''uncompressedBuffer'', Some ''compressedBuffer'',
      Some ''internalBufferSize'') \<and>
   compressor_statics (LzfseCompressor_initIDs (lzfse_library (answer 0) (answer 0))
          LzfseCompressor_class (fresh_process zero_memory)) =
     (0x7100, Some ''uncompressedBuffer'', Some ''compressedBuffer'',
      Some ''internalBufferSize'')"
proof -
  have "compressor_statics (LzfseCompressor_initIDs (lzfse_library (answer 0) (answer 0))
          LzfseCompressor_class (fresh_process zero_memory)) =
     (0x7100, Some ''uncompressedBuffer'', Some ''compressedBuffer'',
      Some ''internalBufferSize'')"
    by (simp add: LzfseCompressor_initIDs_def lzfse_library_def LzfseCompressor_class_def
        fresh_process_def LOAD_DYNAMIC_SYMBOL_def GetFieldID_def emit_def Let_def
        compressor_statics_def)
  then show ?thesis
    using initIDs_repeats_open_and_resolve [of "lzfse_library (answer 0) (answer 0)"
        LzfseCompressor_class "fresh_process zero_memory"]
    by simp
qed

text \<open>
  The claim as the specification words it (once a handle exists, a further call does not
  repeat the open and resolve steps) fails: after a first call has resolved the encode
  entry point, the second call runs \<^verbatim>\<open>dlopen\<close> and \<^verbatim>\<open>dlsym\<close> again.
\<close>

theorem initIDs_once_counterexample:
  "dlsym_lzfse_encode_buffer (LzfseCompressor_initIDs (lzfse_library (answer 0) (answer 0))
       LzfseCompressor_class (fresh_process zero_memory)) = 0x7100 \<and>
   events (LzfseCompressor_initIDs (lzfse_library (answer 0) (answer 0))
       LzfseCompressor_class (LzfseCompressor_initIDs (lzfse_library (answer 0) (answer 0))
          LzfseCompressor_class (fresh_process zero_memory))) =
     [Dlopen ''liblzfse.so'', Dlerror, Dlsym 0x7000 ''lzfse_encode_buffer'',
      Dlopen ''liblzfse.so'', Dlerror, Dlsym 0x7000 ''lzfse_encode_buffer'']"
proof -
  have "dlsym_lzfse_encode_buffer (LzfseCompressor_initIDs (lzfse_library (answer 0) (answer 0))
       LzfseCompressor_class (fresh_process zero_memory)) = 0x7100"
    by (simp add: Compressor_initIDs_resolved(1))
  then show ?thesis
    by (simp add: Compressor_initIDs_events open_and_resolve_def)
qed

subsection \<open>\<^verbatim>\<open>getLibraryName\<close>\<close>

lemma getLibraryName_result:
  "fst (LzfseCompressor_getLibraryName w s) =
     (if dlsym_lzfse_encode_buffer s = 0 then HADOOP_LZFSE_LIBRARY w
      else case dladdr w (dlsym_lzfse_encode_buffer s) of
             Some dli_fname \<Rightarrow> dli_fname
           | None \<Rightarrow> HADOOP_LZFSE_LIBRARY w)"
  by (simp add: LzfseCompressor_getLibraryName_def split: option.splits)

lemma getLibraryName_pending:
  "pending (snd (LzfseCompressor_getLibraryName w s)) = pending s"
  by (simp add: LzfseCompressor_getLibraryName_def split: option.splits)

lemma Compressor_initIDs_unresolved:
  assumes "dlopen w (HADOOP_LZFSE_LIBRARY w) = 0 \<or>
           dlsym w (dlopen w (HADOOP_LZFSE_LIBRARY w)) ''lzfse_encode_buffer'' = 0"
  shows "dlsym_lzfse_encode_buffer (LzfseCompressor_initIDs w clazz (fresh_process m)) = 0"
proof (cases "dlopen w (HADOOP_LZFSE_LIBRARY w) = 0")
  case True
  then have "compressor_statics (LzfseCompressor_initIDs w clazz (fresh_process m)) =
      compressor_statics (fresh_process m)"
    by (rule Compressor_initIDs_no_library(2))
  then show ?thesis by (simp add: compressor_statics_def)
next
  case False
  with assms show ?thesis by (simp add: Compressor_initIDs_no_symbol(2))
qed

text \<open>
  C5, as the code has it. \<^verbatim>\<open>getLibraryName\<close> raises nothing. While the encode entry point
  is not resolved (a fresh process, or one whose \<^verbatim>\<open>initIDs\<close> failed) it returns the configured
  library string. Once the compressor's \<^verbatim>\<open>initIDs\<close> has resolved the encode entry point
  it returns the path \<^verbatim>\<open>dladdr\<close> reports for that entry point, and the configured string
  when \<^verbatim>\<open>dladdr\<close> cannot match the address.
\<close>

theorem getLibraryName_path:
  "pending (snd (LzfseCompressor_getLibraryName w s)) = pending s \<and>
   (dlsym_lzfse_encode_buffer s = 0 \<longrightarrow>
      fst (LzfseCompressor_getLibraryName w s) = HADOOP_LZFSE_LIBRARY w) \<and>
   (dlsym_lzfse_encode_buffer s \<noteq> 0 \<and> dladdr w (dlsym_lzfse_encode_buffer s) = Some path \<longrightarrow>
      fst (LzfseCompressor_getLibraryName w s) = path) \<and>
   (dlsym_lzfse_encode_buffer s \<noteq> 0 \<and> dladdr w (dlsym_lzfse_encode_buffer s) = None \<longrightarrow>
      fst (LzfseCompressor_getLibraryName w s) = HADOOP_LZFSE_LIBRARY w) \<and>
   fst (LzfseCompressor_getLibraryName w (fresh_process m)) = HADOOP_LZFSE_LIBRARY w \<and>
   (dlopen w (HADOOP_LZFSE_LIBRARY w) = 0 \<or>
    dlsym w (dlopen w (HADOOP_LZFSE_LIBRARY w)) ''lzfse_encode_buffer'' = 0 \<longrightarrow>
      fst (LzfseCompressor_getLibraryName w
             (LzfseCompressor_initIDs w clazz (fresh_process m))) = HADOOP_LZFSE_LIBRARY w) \<and>
   (dlopen w (HADOOP_LZFSE_LIBRARY w) \<noteq> 0 \<and>
    dlsym w (dlopen w (HADOOP_LZFSE_LIBRARY w)) ''lzfse_encode_buffer'' \<noteq> 0 \<and>
    dladdr w (dlsym w (dlopen w (HADOOP_LZFSE_LIBRARY w)) ''lzfse_encode_buffer'') = Some path' \<longrightarrow>
      fst (LzfseCompressor_getLibraryName w (LzfseCompressor_initIDs w clazz s)) = path')"
  by (simp add: getLibraryName_result getLibraryName_pending Compressor_initIDs_unresolved
      Compressor_initIDs_resolved(1))

text \<open>Before a load, after a failed load, and after a successful load.\<close>

theorem getLibraryName_path_witness:
  "fst (LzfseCompressor_getLibraryName (lzfse_library (answer 0) (answer 0))
      (fresh_process zero_memory)) = ''liblzfse.so'' \<and>
   fst (LzfseCompressor_getLibraryName (no_library (lzfse_library (answer 0) (answer 0)))
      (LzfseCompressor_initIDs (no_library (lzfse_library (answer 0) (answer 0)))
         LzfseCompressor_class (fresh_process zero_memory))) = ''liblzfse.so'' \<and>
   fst (LzfseCompressor_getLibraryName (lzfse_library (answer 0) (answer 0))
      (LzfseCompressor_initIDs (lzfse_library (answer 0) (answer 0))
         LzfseCompressor_class (fresh_process zero_memory))) = ''/usr/lib/liblzfse.so'' \<and>
   fst (LzfseCompressor_getLibraryName (lzfse_library (answer 0) (answer 0))
      (loaded zero_memory)) = ''/usr/lib/liblzfse.so'' \<and>
   pending (snd (LzfseCompressor_getLibraryName (lzfse_library (answer 0) (answer 0))
      (loaded zero_memory))) = None"
  using getLibraryName_path [of "lzfse_library (answer 0) (answer 0)" "loaded zero_memory"
      "''/usr/lib/liblzfse.so''" zero_memory LzfseCompressor_class "''/usr/lib/liblzfse.so''"]
    getLibraryName_path [of "no_library (lzfse_library (answer 0) (answer 0))"
      "fresh_process zero_memory" "''x''" zero_memory LzfseCompressor_class "''x''"]
    getLibraryName_path [of "lzfse_library (answer 0) (answer 0)" "fresh_process zero_memory"
      "''/usr/lib/liblzfse.so''" zero_memory LzfseCompressor_class "''/usr/lib/liblzfse.so''"]
  by simp

text \<open>
  The claim as the specification words it (after a successful load the resolved on-disk
  path is returned) fails when \<^verbatim>\<open>dladdr\<close> gives no answer: the encode entry point is
  resolved, and the configured string is returned.
\<close>

theorem getLibraryName_fallback_counterexample:
  "dlsym_lzfse_encode_buffer (LzfseCompressor_initIDs (no_dladdr (lzfse_library (answer 0) (answer 0)))
       LzfseCompressor_class (fresh_process zero_memory)) = 0x7100 \<and>
   pending (LzfseCompressor_initIDs (no_dladdr (lzfse_library (answer 0) (answer 0)))
       LzfseCompressor_class (fresh_process zero_memory)) = None \<and>
   dladdr (no_dladdr (lzfse_library (answer 0) (answer 0))) 0x7100 = None \<and>
   fst (LzfseCompressor_getLibraryName (no_dladdr (lzfse_library (answer 0) (answer 0)))
      (LzfseCompressor_initIDs (no_dladdr (lzfse_library (answer 0) (answer 0)))
         LzfseCompressor_class (fresh_process zero_memory))) = ''liblzfse.so''"
proof -
  let ?w = "no_dladdr (lzfse_library (answer 0) (answer 0))"
  have p: "dlsym_lzfse_encode_buffer (LzfseCompressor_initIDs ?w
       LzfseCompressor_class (fresh_process zero_memory)) = 0x7100"
    by (simp add: Compressor_initIDs_resolved(1))
  have "pending (LzfseCompressor_initIDs ?w LzfseCompressor_class (fresh_process zero_memory)) = None"
    by (rule Compressor_initIDs_resolved(3)) simp_all
  then show ?thesis
    using p by (simp add: getLibraryName_result)
qed

subsection \<open>A round trip\<close>

lemma length_load [simp]: "length (load m a n) = n"
  by (simp add: load_def)

lemma load_store:
  assumes "length bs < 2 ^ 64"
  shows "load (store m a bs) a (length bs) = bs"
proof (rule nth_equalityI)
  show "length (load (store m a bs) a (length bs)) = length bs" by simp
next
  fix i assume "i < length (load (store m a bs) a (length bs))"
  then have i: "i < length bs" by simp
  with assms have "i < 2 ^ 64" by simp
  then have "unat (of_nat i :: ptr) = i"
    by (simp add: unat_of_nat)
  then show "load (store m a bs) a (length bs) ! i = bs ! i"
    using i by (simp add: load_def store_def)
qed

lemma small_nat:
  assumes "(k::nat) < 2 ^ 31"
  shows "k < 2 ^ 32" and "k < 2 ^ 64"
  using assms by simp_all

lemma scast_of_nat_jint:
  assumes "k < 2 ^ 31"
  shows "(scast (of_nat k :: jint) :: size_t) = of_nat k"
proof -
  have "k < 2147483648" using assms by simp
  then have "int k < 2147483648" by linarith
  then have "int k < 2 ^ 31" by simp
  moreover have "- (2 ^ 31) \<le> int k"
  proof -
    have "- (2 ^ 31) \<le> (0::int)" by simp
    also have "\<dots> \<le> int k" by simp
    finally show ?thesis .
  qed
  ultimately have "signed_take_bit 31 (int k) = int k"
    by (intro signed_take_bit_int_eq_self)
  then show ?thesis
    by (simp add: signed_of_nat)
qed

lemma unat_scast_of_nat_jint:
  assumes "k < 2 ^ 31"
  shows "unat (scast (of_nat k :: jint) :: size_t) = k"
  using small_nat(2) [OF assms]
  by (simp add: scast_of_nat_jint [OF assms] unat_of_nat)

lemma ucast_of_nat_jsize:
  assumes "k < 2 ^ 31"
  shows "(ucast (of_nat k :: size_t) :: jsize) = of_nat k"
  using small_nat(2) [OF assms]
  by (simp add: unsigned_of_nat take_bit_nat_eq_self)

lemma of_nat_jint_neq_0:
  assumes "0 < k" and "k < 2 ^ 31"
  shows "(of_nat k :: jint) \<noteq> 0"
  using assms(1) small_nat(1) [OF assms(2)]
  by (intro of_nat_neq_0) simp_all

lemma unat_scast_capacity:
  assumes "0 \<le> sint (n :: jint)"
  shows "unat (scast n :: size_t) = nat (sint n)"
  using uint_scast_jint [OF assms] by (simp add: unat_eq_nat_uint)

lemma returned_Some [simp]: "returned (Some (e, s)) = Some e"
  by (simp add: returned_def)

lemma raised_Some [simp]: "raised (Some (e, s)) = Some (pending s)"
  by (simp add: raised_def)

lemma decompressor_bound_after:
  "decompressor_bound w (emit es (s\<lparr>mem := m\<rparr>)) thisj cb db n f =
   decompressor_bound w s thisj cb db n f"
  by (simp add: decompressor_bound_def emit_def)

lemma roundtrip_run:
  assumes cb: "compressor_bound w s compressor ub cb n (buffer_fn enc)"
    and db: "decompressor_bound w s decompressor cb' db n' (buffer_fn dec)"
    and same: "GetDirectBufferAddress cb' = GetDirectBufferAddress cb"
    and data: "load (mem s) (GetDirectBufferAddress ub) (length A) = A"
    and A: "A \<noteq> []" "length A < 2 ^ 31"
    and codec: "enc A = Some C" "C \<noteq> []" "dec C = Some A"
    and cap: "0 \<le> sint n" "int (length C) \<le> sint n"
             "0 \<le> sint n'" "int (length A) \<le> sint n'"
    and p: "pending s = None"
  shows "\<exists>s'. compress_then_decompress w compressor decompressor (of_nat (length A)) s =
           Some (of_nat (length A), s') \<and> pending s' = None \<and>
           load (mem s') (GetDirectBufferAddress db) (length A) = A"
proof -
  let ?src = "GetDirectBufferAddress ub" and ?mid = "GetDirectBufferAddress cb"
  let ?out = "GetDirectBufferAddress db"
  let ?sizej = "of_nat (length A) :: jint"
  have n: "unat (scast n :: size_t) = nat (sint n)"
    and n': "unat (scast n' :: size_t) = nat (sint n')"
    using cap by (simp_all add: unat_scast_capacity)
  have "sint n < 2147483648" using sint_lt [of n] by simp
  with cap(2) have "length C < 2147483648" by linarith
  then have C: "length C < 2 ^ 31" by simp
  have fitC: "length C \<le> nat (sint n)" using cap(2) by linarith
  have fitA: "length A \<le> nat (sint n')" using cap(4) by linarith
  have C0: "0 < length C" using codec(2) by simp
  have A0: "0 < length A" using A(1) by simp
  let ?m1 = "store (mem s) ?mid C"
  have enc_call: "buffer_fn enc (mem s) ?mid (scast n) ?src (scast ?sizej) 0 =
      (?m1, of_nat (length C))"
    using fitC by (simp add: buffer_fn_def unat_scast_of_nat_jint [OF A(2)] data codec(1) n)
  let ?L = "of_nat (length C) :: jsize"
  let ?s1 = "emit [encode_call s ub cb n ?sizej] (s\<lparr>mem := ?m1\<rparr>)"
  have L0: "?L \<noteq> 0" by (rule of_nat_jint_neq_0 [OF C0 C])
  have c: "LzfseCompressor_compressBytesDirect w compressor ?sizej s = Some (?L, ?s1)"
    using L0 by (simp add: compress_run [OF cb enc_call] ucast_of_nat_jsize [OF C])
  have db1: "decompressor_bound w ?s1 decompressor cb' db n' (buffer_fn dec)"
    using db by (simp add: decompressor_bound_after)
  have held: "load ?m1 ?mid (length C) = C"
    by (rule load_store) (rule small_nat(2) [OF C])
  let ?m2 = "store ?m1 ?out A"
  have dec_call: "buffer_fn dec (mem ?s1) ?out (scast n') (GetDirectBufferAddress cb') (scast ?L) 0 =
      (?m2, of_nat (length A))"
    using fitA by (simp add: buffer_fn_def unat_scast_of_nat_jint [OF C] same held codec(3) n')
  let ?s2 = "emit [decode_call ?s1 cb' db n' ?L] (?s1\<lparr>mem := ?m2\<rparr>)"
  have K0: "(of_nat (length A) :: jsize) \<noteq> 0" by (rule of_nat_jint_neq_0 [OF A0 A(2)])
  have d: "LzfseDecompressor_decompressBytesDirect w decompressor ?L ?s1 =
      Some (of_nat (length A), ?s2)"
    using K0 by (simp add: decompress_run [OF db1 dec_call] ucast_of_nat_jsize [OF A(2)])
  have "compress_then_decompress w compressor decompressor ?sizej s =
      Some (of_nat (length A), ?s2)"
    using p by (simp add: compress_then_decompress_def c d)
  moreover have "pending ?s2 = None" using p by simp
  moreover have "load (mem ?s2) ?out (length A) = A"
    using load_store [OF small_nat(2) [OF A(2)], of ?m1 ?out] by simp
  ultimately show ?thesis by blast
qed

text \<open>
  C8, as the code has it. Let the two entry points keep the buffer contract for a pair of
  transforms \<open>enc\<close> and \<open>dec\<close>, let \<open>A\<close> be a non-empty byte sequence shorter than
  \<open>2 ^ 31\<close> held in the compressor's source buffer, let \<open>enc\<close> turn \<open>A\<close> into a non-empty
  \<open>C\<close> that \<open>dec\<close> turns back into \<open>A\<close>, let the decompressor read where the compressor
  wrote, and let the declared capacities be large enough for \<open>C\<close> and for \<open>A\<close>. Then
  compressing \<open>A\<close> and decompressing the result raises nothing, returns the length of
  \<open>A\<close>, and leaves \<open>A\<close> in the decompressor's destination buffer.
\<close>

theorem roundtrip_with_lossless_codec:
  "compressor_bound w s compressor ub cb n (buffer_fn enc) \<and>
   decompressor_bound w s decompressor cb' db n' (buffer_fn dec) \<and>
   GetDirectBufferAddress cb' = GetDirectBufferAddress cb \<and>
   load (mem s) (GetDirectBufferAddress ub) (length A) = A \<and>
   A \<noteq> [] \<and> length A < 2 ^ 31 \<and>
   enc A = Some C \<and> C \<noteq> [] \<and> dec C = Some A \<and>
   0 \<le> sint n \<and> int (length C) \<le> sint n \<and>
   0 \<le> sint n' \<and> int (length A) \<le> sint n' \<and>
   pending s = None \<longrightarrow>
     returned (compress_then_decompress w compressor decompressor (of_nat (length A)) s) =
       Some (of_nat (length A)) \<and>
     raised (compress_then_decompress w compressor decompressor (of_nat (length A)) s) =
       Some None \<and>
     contents (compress_then_decompress w compressor decompressor (of_nat (length A)) s)
       (GetDirectBufferAddress db) (length A) = Some A"
proof (intro impI; elim conjE)
  assume "compressor_bound w s compressor ub cb n (buffer_fn enc)"
    "decompressor_bound w s decompressor cb' db n' (buffer_fn dec)"
    "GetDirectBufferAddress cb' = GetDirectBufferAddress cb"
    "load (mem s) (GetDirectBufferAddress ub) (length A) = A"
    "A \<noteq> []" "length A < 2 ^ 31"
    "enc A = Some C" "C \<noteq> []" "dec C = Some A"
    "0 \<le> sint n" "int (length C) \<le> sint n"
    "0 \<le> sint n'" "int (length A) \<le> sint n'"
    "pending s = None"
  then obtain s' where
    "compress_then_decompress w compressor decompressor (of_nat (length A)) s =
       Some (of_nat (length A), s')"
    and "pending s' = None"
    and "load (mem s') (GetDirectBufferAddress db) (length A) = A"
    using roundtrip_run by blast
  then show "returned (compress_then_decompress w compressor decompressor (of_nat (length A)) s) =
       Some (of_nat (length A)) \<and>
     raised (compress_then_decompress w compressor decompressor (of_nat (length A)) s) =
       Some None \<and>
     contents (compress_then_decompress w compressor decompressor (of_nat (length A)) s)
       (GetDirectBufferAddress db) (length A) = Some A"
    by (simp add: contents_def)
qed

text \<open>Three bytes through a library that copies, with capacities of 16.\<close>

theorem roundtrip_with_lossless_codec_witness:
  "returned (compress_then_decompress (lzfse_library (buffer_fn Some) (buffer_fn Some))
       (compressor_object 0x100 0x200 16) (decompressor_object 0x200 0x300 16) 3
       (loaded (store zero_memory 0x100 [65, 66, 67]))) = Some 3 \<and>
   raised (compress_then_decompress (lzfse_library (buffer_fn Some) (buffer_fn Some))
       (compressor_object 0x100 0x200 16) (decompressor_object 0x200 0x300 16) 3
       (loaded (store zero_memory 0x100 [65, 66, 67]))) = Some None \<and>
   contents (compress_then_decompress (lzfse_library (buffer_fn Some) (buffer_fn Some))
       (compressor_object 0x100 0x200 16) (decompressor_object 0x200 0x300 16) 3
       (loaded (store zero_memory 0x100 [65, 66, 67]))) 0x300 3 = Some [65, 66, 67]"
proof -
  let ?A = "[65, 66, 67] :: byte list"
  have data: "load (store zero_memory 0x100 ?A) 0x100 (length ?A) = ?A"
    by (rule load_store) simp
  show ?thesis
    using roundtrip_with_lossless_codec [where w = "lzfse_library (buffer_fn Some) (buffer_fn Some)"
        and s = "loaded (store zero_memory 0x100 ?A)"
        and compressor = "compressor_object 0x100 0x200 16"
        and ub = "DirectBuffer 0x100 16 0" and cb = "DirectBuffer 0x200 16 0" and n = 16
        and enc = Some and decompressor = "decompressor_object 0x200 0x300 16"
        and cb' = "DirectBuffer 0x200 16 0" and db = "DirectBuffer 0x300 16 0" and n' = 16
        and dec = Some and A = ?A and C = ?A]
      loaded_compressor_bound [of "buffer_fn Some" "buffer_fn Some"
        "store zero_memory 0x100 ?A" "0x100" "0x200" 16]
      loaded_decompressor_bound [of "buffer_fn Some" "buffer_fn Some"
        "store zero_memory 0x100 ?A" "0x200" "0x300" 16]
      data
    by (simp add: numeral_3_eq_3)
qed

text \<open>
  The claim as the specification words it (every non-empty sequence comes back) fails
  when the destination is too small, even for a lossless library: three bytes into a
  compressed buffer of capacity 2 raise \<open>CodecFailure\<close>, and nothing is decompressed.
\<close>

theorem roundtrip_small_destination_counterexample:
  "returned (compress_then_decompress (lzfse_library (buffer_fn Some) (buffer_fn Some))
       (compressor_object 0x100 0x200 2) (decompressor_object 0x200 0x300 16) 3
       (loaded (store zero_memory 0x100 [65, 66, 67]))) = Some 0 \<and>
   raised (compress_then_decompress (lzfse_library (buffer_fn Some) (buffer_fn Some))
       (compressor_object 0x100 0x200 2) (decompressor_object 0x200 0x300 16) 3
       (loaded (store zero_memory 0x100 [65, 66, 67]))) =
     Some (Some (CodecFailure ''lzfse_encode_buffer failed''))"
proof -
  let ?m = "store zero_memory 0x100 [65, 66, 67]"
  have call: "buffer_fn Some (mem (loaded ?m)) (GetDirectBufferAddress (DirectBuffer 0x200 2 0))
      (scast (2 :: jint)) (GetDirectBufferAddress (DirectBuffer 0x100 2 0)) (scast (3 :: jint)) 0 =
      (?m, 0)"
    by (simp add: buffer_fn_def)
  have "LzfseCompressor_compressBytesDirect (lzfse_library (buffer_fn Some) (buffer_fn Some))
       (compressor_object 0x100 0x200 2) 3 (loaded ?m) =
     Some (0, THROW ''java/lang/InternalError'' ''lzfse_encode_buffer failed''
        (emit [encode_call (loaded ?m) (DirectBuffer 0x100 2 0) (DirectBuffer 0x200 2 0) 2 3]
           ((loaded ?m)\<lparr>mem := ?m\<rparr>)))"
    using compress_run [OF loaded_compressor_bound [of "buffer_fn Some" "buffer_fn Some" ?m
          "0x100" "0x200" 2] call]
    by simp
  then show ?thesis
    by (simp add: compress_then_decompress_def CodecFailure_def)
qed

end
